theory Spec2Isabelle
  imports Main "HOL-Library.AList" "HOL-Library.Option_ord"
begin

section \<open>The ride-sharing backend of \<^verbatim>\<open>app.py\<close>\<close>

text \<open>
  The handlers of \<^verbatim>\<open>app.py\<close> are embedded as functions from a request, the caller's
  session and the server's state to a response, a session and a state. The server's
  state is the database (the three tables) together with the in-process collections of
  \<^verbatim>\<open>RideShareDataStructures\<close>.

  Scope of the model.
  \<^item> A table is the list of its rows in insertion order. \<^verbatim>\<open>query.get\<close> is the first row
    with the primary key; a committed change of a loaded row rewrites the rows with its
    primary key.
  \<^item> An integer column holds a Python integer (\<open>int\<close>), a string column a \<open>string\<close>,
    a column that may be \<^verbatim>\<open>NULL\<close> an \<open>option\<close>. The database is SQLite, the default of
    the configuration: an integer outside the 64 bits of \<^verbatim>\<open>INTEGER\<close> is refused.
  \<^item> A request body is a JSON object. A key is absent, or \<^verbatim>\<open>null\<close>, or carries a value
    of the type of the column it is stored in. A value of another JSON type (a number
    for a string column, a list) is not modelled.
  \<^item> A handler that raises answers 500 through its \<^verbatim>\<open>except\<close> clause; the text of the
    exception is modelled by the name of its class and, for a refused statement, the
    parameters of the statement.
  \<^item> The clock (\<^verbatim>\<open>datetime.utcnow\<close>, \<^verbatim>\<open>datetime.now\<close>) and the password functions of
    werkzeug (\<^verbatim>\<open>generate_password_hash\<close>, \<^verbatim>\<open>check_password_hash\<close>) are parameters.
  \<^item> A fresh primary key is one more than the largest key of the table.
  \<^item> \<^verbatim>\<open>order_by(created_at.desc())\<close> sorts by descending timestamp; rows with equal
    timestamps come in the order of their insertion, as SQLite returns them.
  \<^item> \<^verbatim>\<open>ilike\<close> is the pattern match of SQLite: \<^verbatim>\<open>%\<close> stands for any run of characters,
    \<^verbatim>\<open>_\<close> for one character, letters compare without case, nothing is escaped.
\<close>

subsection \<open>JSON values and responses\<close>

type_synonym datetime = nat

datatype json =
    JNull
  | JInt int
  | JStr string
  | JIso datetime  \<comment> \<open>the \<^verbatim>\<open>isoformat()\<close> text of a timestamp\<close>
  | JArr "json list"
  | JObj "(string \<times> json) list"

type_synonym response = "json \<times> nat"

definition message_response :: "string \<Rightarrow> nat \<Rightarrow> response" where
  "message_response m code = (JObj [(''message'', JStr m)], code)"

definition isoformat_or_none :: "datetime option \<Rightarrow> json" where
  "isoformat_or_none t = (case t of None \<Rightarrow> JNull | Some d \<Rightarrow> JIso d)"

definition str_or_none :: "string option \<Rightarrow> json" where
  "str_or_none v = (case v of None \<Rightarrow> JNull | Some x \<Rightarrow> JStr x)"

subsection \<open>Models\<close>

record User =
  u_id :: int
  first_name :: string
  last_name :: string
  email :: string
  phone :: string
  password_hash :: string
  role :: string
  rating :: int
  total_rides :: int
  u_created_at :: "datetime option"

record Ride =
  r_id :: int
  driver_id :: int
  origin :: string
  destination :: string
  date :: string
  time :: string
  available_seats :: int
  price :: int
  vehicle_type :: string
  r_notes :: "string option"
  r_status :: string
  r_created_at :: "datetime option"

record RideRequest =
  q_id :: int
  ride_id :: int
  rider_id :: int
  seats :: int
  message :: "string option"
  q_status :: string
  q_created_at :: "datetime option"

record database =
  users :: "User list"
  rides :: "Ride list"
  ride_requests :: "RideRequest list"

definition get_user :: "User list \<Rightarrow> int \<Rightarrow> User option" where
  "get_user us i = find (\<lambda>u. u_id u = i) us"

definition get_ride :: "Ride list \<Rightarrow> int \<Rightarrow> Ride option" where
  "get_ride rs i = find (\<lambda>r. r_id r = i) rs"

definition get_request :: "RideRequest list \<Rightarrow> int \<Rightarrow> RideRequest option" where
  "get_request qs i = find (\<lambda>q. q_id q = i) qs"

definition next_id :: "int list \<Rightarrow> int" where
  "next_id ids = fold max ids 0 + 1"

definition order_by_desc :: "('a \<Rightarrow> 'k::linorder) \<Rightarrow> 'a list \<Rightarrow> 'a list" where
  "order_by_desc k xs = rev (sort_key k (rev xs))"

definition user_to_dict :: "User \<Rightarrow> json" where
  "user_to_dict u = JObj
     [(''id'', JInt (u_id u)),
      (''firstName'', JStr (first_name u)),
      (''lastName'', JStr (last_name u)),
      (''email'', JStr (email u)),
      (''phone'', JStr (phone u)),
      (''role'', JStr (role u)),
      (''rating'', JInt (rating u)),
      (''totalRides'', JInt (total_rides u)),
      (''createdAt'', isoformat_or_none (u_created_at u))]"

definition ride_fields :: "Ride \<Rightarrow> (string \<times> json) list" where
  "ride_fields r =
     [(''id'', JInt (r_id r)),
      (''driverId'', JInt (driver_id r)),
      (''origin'', JStr (origin r)),
      (''destination'', JStr (destination r)),
      (''date'', JStr (date r)),
      (''time'', JStr (time r)),
      (''availableSeats'', JInt (available_seats r)),
      (''price'', JInt (price r)),
      (''vehicleType'', JStr (vehicle_type r)),
      (''notes'', str_or_none (r_notes r)),
      (''status'', JStr (r_status r)),
      (''createdAt'', isoformat_or_none (r_created_at r))]"

definition ride_to_dict :: "database \<Rightarrow> bool \<Rightarrow> Ride \<Rightarrow> json" where
  "ride_to_dict d include_driver r = JObj (ride_fields r @
     (if include_driver
      then (case get_user (users d) (driver_id r) of
              Some driver \<Rightarrow> [(''driver'', user_to_dict driver)]
            | None \<Rightarrow> [])
      else []))"

definition request_fields :: "RideRequest \<Rightarrow> (string \<times> json) list" where
  "request_fields q =
     [(''id'', JInt (q_id q)),
      (''rideId'', JInt (ride_id q)),
      (''riderId'', JInt (rider_id q)),
      (''seats'', JInt (seats q)),
      (''message'', str_or_none (message q)),
      (''status'', JStr (q_status q)),
      (''createdAt'', isoformat_or_none (q_created_at q))]"

definition request_to_dict :: "database \<Rightarrow> bool \<Rightarrow> bool \<Rightarrow> RideRequest \<Rightarrow> json" where
  "request_to_dict d include_rider include_ride q = JObj (request_fields q @
     (if include_rider
      then (case get_user (users d) (rider_id q) of
              Some rider \<Rightarrow> [(''rider'', user_to_dict rider)]
            | None \<Rightarrow> [])
      else []) @
     (if include_ride
      then (case get_ride (rides d) (ride_id q) of
              Some ride \<Rightarrow> [(''ride'', ride_to_dict d True ride)]
            | None \<Rightarrow> [])
      else []))"

subsection \<open>The in-process collections\<close>

record search_params =
  sp_origin :: string
  sp_destination :: string
  sp_date :: string
  sp_timestamp :: datetime

record session_data =
  sd_role :: string
  sd_email :: string
  sd_login_time :: datetime

record RideShareDataStructures =
  active_rides :: "int list"
  search_history :: "search_params list"
  user_sessions :: "(int \<times> session_data) list"
  ride_cache :: "(int \<times> json) list"
  driver_rides :: "(int \<times> int list) list"
  unique_emails :: "string option set"
  active_drivers :: "int set"
  blocked_users :: "int set"

definition popular_routes :: "(string \<times> string) list" where
  "popular_routes =
     [(''Mumbai Central'', ''Bandra''),
      (''Pune Station'', ''Hadapsar''),
      (''Delhi CP'', ''Gurgaon'')]"

definition init_ride_data :: RideShareDataStructures where
  "init_ride_data =
     \<lparr>active_rides = [], search_history = [], user_sessions = [], ride_cache = [],
      driver_rides = [], unique_emails = {}, active_drivers = {}, blocked_users = {}\<rparr>"

definition add_user_email :: "RideShareDataStructures \<Rightarrow> string option \<Rightarrow> bool \<times> RideShareDataStructures" where
  "add_user_email rd e =
     (if e \<in> unique_emails rd then (False, rd)
      else (True, rd\<lparr>unique_emails := insert e (unique_emails rd)\<rparr>))"

definition cache_ride :: "RideShareDataStructures \<Rightarrow> int \<Rightarrow> json \<Rightarrow> RideShareDataStructures" where
  "cache_ride rd i ride_dict = rd\<lparr>ride_cache := AList.update i ride_dict (ride_cache rd)\<rparr>"

definition add_to_search_history :: "RideShareDataStructures \<Rightarrow> search_params \<Rightarrow> RideShareDataStructures" where
  "add_to_search_history rd sp =
     (let h = (if length (search_history rd) \<ge> 10 then tl (search_history rd)
               else search_history rd)
      in rd\<lparr>search_history := h @ [sp]\<rparr>)"

subsection \<open>Sessions and the server state\<close>

record session =
  s_user_id :: "int option"
  s_user_role :: "string option"

definition empty_session :: session where
  "empty_session = \<lparr>s_user_id = None, s_user_role = None\<rparr>"

record world =
  db :: database
  ride_data :: RideShareDataStructures

definition init_world :: world where
  "init_world = \<lparr>db = \<lparr>users = [], rides = [], ride_requests = []\<rparr>, ride_data = init_ride_data\<rparr>"

record clock =
  utcnow :: datetime
  now :: datetime

type_synonym result = "response \<times> session \<times> world"

definition require_auth :: "session \<Rightarrow> world \<Rightarrow> result \<Rightarrow> result" where
  "require_auth s w f =
     (if s_user_id s = None then (message_response ''Unauthorized'' 401, s, w) else f)"

definition failure_response :: "string \<Rightarrow> json \<Rightarrow> response" where
  \<comment> \<open>the \<^verbatim>\<open>except Exception\<close> clause of a handler\<close>
  "failure_response m e = (JObj [(''message'', JStr m), (''error'', e)], 500)"

subsection \<open>Request bodies and query parameters\<close>

text \<open>
  A key of the body is absent, or present with the value \<^verbatim>\<open>null\<close>, or present with a
  value of the type of the column it is stored in. A query parameter is absent or a
  string.
\<close>

datatype 'a field = Absent | Null | Value 'a

record register_body =
  reg_firstName :: "string field"
  reg_lastName :: "string field"
  reg_email :: "string field"
  reg_phone :: "string field"
  reg_password :: "string field"
  reg_role :: "string field"

record login_body =
  login_email :: "string field"
  login_password :: "string field"

record ride_body =
  rb_origin :: "string field"
  rb_destination :: "string field"
  rb_date :: "string field"
  rb_time :: "string field"
  rb_availableSeats :: "int field"
  rb_price :: "int field"
  rb_vehicleType :: "string field"
  rb_notes :: "string field"

record request_body =
  qb_rideId :: "int field"
  qb_seats :: "int field"
  qb_message :: "string field"

record status_body =
  sb_status :: "string field"

record search_args =
  arg_origin :: "string option"
  arg_destination :: "string option"
  arg_date :: "string option"

definition require :: "string \<Rightarrow> 'a field \<Rightarrow> ('a option \<Rightarrow> string + 'b) \<Rightarrow> string + 'b" where
  \<comment> \<open>one round of the loop over \<^verbatim>\<open>required_fields\<close>: the name of the field when its
      key is missing, its value (\<open>None\<close> for \<^verbatim>\<open>null\<close>) passed on otherwise\<close>
  "require field v k = (case v of Absent \<Rightarrow> Inl field | Null \<Rightarrow> k None | Value x \<Rightarrow> k (Some x))"

definition dict_get :: "'a field \<Rightarrow> 'a option \<Rightarrow> 'a option" where
  \<comment> \<open>\<^verbatim>\<open>dict.get(key, default)\<close> on the body\<close>
  "dict_get v dflt = (case v of Absent \<Rightarrow> dflt | Null \<Rightarrow> None | Value x \<Rightarrow> Some x)"

definition get_or :: "'a option \<Rightarrow> 'a \<Rightarrow> 'a" where
  \<comment> \<open>\<^verbatim>\<open>request.args.get(key, default)\<close>\<close>
  "get_or v dflt = (case v of None \<Rightarrow> dflt | Some x \<Rightarrow> x)"

definition required_register ::
  "register_body \<Rightarrow> string + (string option \<times> string option \<times> string option \<times> string option
     \<times> string option \<times> string option)" where
  "required_register data =
     require ''firstName'' (reg_firstName data) (\<lambda>fn.
     require ''lastName'' (reg_lastName data) (\<lambda>ln.
     require ''email'' (reg_email data) (\<lambda>e.
     require ''phone'' (reg_phone data) (\<lambda>ph.
     require ''password'' (reg_password data) (\<lambda>pw.
     require ''role'' (reg_role data) (\<lambda>r. Inr (fn, ln, e, ph, pw, r)))))))"

definition required_ride ::
  "ride_body \<Rightarrow> string + (string option \<times> string option \<times> string option \<times> string option
     \<times> int option \<times> int option \<times> string option)" where
  "required_ride data =
     require ''origin'' (rb_origin data) (\<lambda>og.
     require ''destination'' (rb_destination data) (\<lambda>de.
     require ''date'' (rb_date data) (\<lambda>da.
     require ''time'' (rb_time data) (\<lambda>ti.
     require ''availableSeats'' (rb_availableSeats data) (\<lambda>n.
     require ''price'' (rb_price data) (\<lambda>p.
     require ''vehicleType'' (rb_vehicleType data) (\<lambda>vt. Inr (og, de, da, ti, n, p, vt))))))))"

definition required_request :: "request_body \<Rightarrow> string + (int option \<times> int option)" where
  "required_request data =
     require ''rideId'' (qb_rideId data) (\<lambda>i.
     require ''seats'' (qb_seats data) (\<lambda>n. Inr (i, n)))"

subsection \<open>What the database refuses\<close>

text \<open>
  The handlers run in \<^verbatim>\<open>try\<close> blocks; an exception is answered with 500, a message and
  the text of the exception. The text is modelled by the name of the class of the
  exception, and for a statement that the database refuses by that name and the
  parameters of the statement, which SQLAlchemy prints in the text. A failed commit
  leaves the database as it was.

  An \<^verbatim>\<open>INTEGER\<close> of SQLite has 64 bits: binding a larger Python integer raises
  \<^verbatim>\<open>OverflowError\<close>. A column declared \<^verbatim>\<open>nullable=False\<close> refuses \<^verbatim>\<open>NULL\<close> with an
  \<^verbatim>\<open>IntegrityError\<close>.
\<close>

definition sqlite_integer :: "int \<Rightarrow> bool" where
  "sqlite_integer n = (- 9223372036854775808 \<le> n \<and> n \<le> 9223372036854775807)"

definition overflows :: "int option \<Rightarrow> bool" where
  "overflows v = (case v of None \<Rightarrow> False | Some n \<Rightarrow> \<not> sqlite_integer n)"

definition int_or_none :: "int option \<Rightarrow> json" where
  "int_or_none v = (case v of None \<Rightarrow> JNull | Some n \<Rightarrow> JInt n)"

definition statement_error :: "string \<Rightarrow> json list \<Rightarrow> json" where
  "statement_error name parameters = JObj [(''error'', JStr name), (''parameters'', JArr parameters)]"

subsection \<open>Pattern matching of \<^verbatim>\<open>ilike\<close>\<close>

definition lower_char :: "char \<Rightarrow> char" where
  "lower_char c =
     (let n = (of_char c :: nat) in if 65 \<le> n \<and> n \<le> 90 then char_of (n + 32) else c)"

fun like_match :: "string \<Rightarrow> string \<Rightarrow> bool" where
  "like_match [] s = (s = [])"
| "like_match (p # ps) [] = (p = CHR ''%'' \<and> like_match ps [])"
| "like_match (p # ps) (c # cs) =
     (if p = CHR ''%'' then like_match ps (c # cs) \<or> like_match (p # ps) cs
      else (p = CHR ''_'' \<or> p = c) \<and> like_match ps cs)"

definition ilike :: "string \<Rightarrow> string \<Rightarrow> bool" where
  "ilike s pattern = like_match (map lower_char pattern) (map lower_char s)"

subsection \<open>Authentication handlers\<close>

definition bind_session :: "session \<Rightarrow> User \<Rightarrow> session" where
  "bind_session s user = s\<lparr>s_user_id := Some (u_id user), s_user_role := Some (role user)\<rparr>"

definition cache_user_session :: "clock \<Rightarrow> RideShareDataStructures \<Rightarrow> User \<Rightarrow> RideShareDataStructures" where
  "cache_user_session clk rd user =
     rd\<lparr>user_sessions := AList.update (u_id user)
          \<lparr>sd_role = role user, sd_email = email user, sd_login_time = now clk\<rparr>
          (user_sessions rd)\<rparr>"

definition filter_by_email :: "User list \<Rightarrow> string option \<Rightarrow> User option" where
  \<comment> \<open>\<^verbatim>\<open>User.query.filter_by(email=...).first()\<close>; for \<^verbatim>\<open>None\<close> the query is
      \<^verbatim>\<open>email IS NULL\<close>, which no row of the table satisfies\<close>
  "filter_by_email us e = (case e of None \<Rightarrow> None | Some a \<Rightarrow> find (\<lambda>u. email u = a) us)"

definition register :: "(string \<Rightarrow> string) \<Rightarrow> clock \<Rightarrow> register_body \<Rightarrow> session \<Rightarrow> world \<Rightarrow> result" where
  "register generate_password_hash clk data s w =
     (case required_register data of
        Inl field \<Rightarrow> (message_response (''Missing field: '' @ field) 400, s, w)
      | Inr (fn, ln, e, ph, pw, r) \<Rightarrow>
          (case add_user_email (ride_data w) e of (added, rd) \<Rightarrow>
             if \<not> added then (message_response ''Email already registered'' 400, s, w)
             else
               (case filter_by_email (users (db w)) e of
                  Some existing_user \<Rightarrow>
                    (message_response ''User already exists'' 400, s, w\<lparr>ride_data := rd\<rparr>)
                | None \<Rightarrow>
                    (case pw of
                       None \<Rightarrow>
                         \<comment> \<open>\<^verbatim>\<open>generate_password_hash(None)\<close> raises\<close>
                         (failure_response ''Registration failed'' (JStr ''AttributeError''), s,
                          w\<lparr>ride_data := rd\<rparr>)
                     | Some password \<Rightarrow>
                         (let h = generate_password_hash password in
                          case (fn, ln, e, ph, r) of
                            (Some fn', Some ln', Some e', Some ph', Some r') \<Rightarrow>
                              (let user = \<lparr>u_id = next_id (map u_id (users (db w))),
                                           first_name = fn', last_name = ln', email = e',
                                           phone = ph', password_hash = h, role = r',
                                           rating = 5, total_rides = 0,
                                           u_created_at = Some (utcnow clk)\<rparr>;
                                   d = (db w)\<lparr>users := users (db w) @ [user]\<rparr>
                               in ((user_to_dict user, 201), bind_session s user,
                                   \<lparr>db = d, ride_data = cache_user_session clk rd user\<rparr>))
                          | _ \<Rightarrow>
                              \<comment> \<open>the \<^verbatim>\<open>INSERT\<close> fails on a \<^verbatim>\<open>NOT NULL\<close> column\<close>
                              (failure_response ''Registration failed''
                                 (statement_error ''IntegrityError''
                                    [str_or_none fn, str_or_none ln, str_or_none e, str_or_none ph,
                                     JStr h, str_or_none r, JInt 5, JInt 0, JIso (utcnow clk)]),
                               s, w\<lparr>ride_data := rd\<rparr>))))))"

definition login :: "(string \<Rightarrow> string \<Rightarrow> bool) \<Rightarrow> clock \<Rightarrow> login_body \<Rightarrow> session \<Rightarrow> world \<Rightarrow> result" where
  "login check_password_hash clk data s w =
     (if login_email data = Absent \<or> login_password data = Absent
      then (message_response ''Email and password required'' 400, s, w)
      else
        (case filter_by_email (users (db w)) (dict_get (login_email data) None) of
           None \<Rightarrow> (message_response ''Invalid credentials'' 401, s, w)
         | Some user \<Rightarrow>
             (case dict_get (login_password data) None of
                None \<Rightarrow>
                  \<comment> \<open>\<^verbatim>\<open>check_password_hash(hash, None)\<close> raises\<close>
                  (failure_response ''Login failed'' (JStr ''AttributeError''), s, w)
              | Some password \<Rightarrow>
                  if check_password_hash (password_hash user) password then
                    (let rd1 = cache_user_session clk (ride_data w) user;
                         rd2 = (if role user = ''driver''
                                then rd1\<lparr>active_drivers := insert (u_id user) (active_drivers rd1)\<rparr>
                                else rd1)
                     in ((user_to_dict user, 200), bind_session s user, w\<lparr>ride_data := rd2\<rparr>))
                  else (message_response ''Invalid credentials'' 401, s, w))))"

definition logout :: "session \<Rightarrow> world \<Rightarrow> result" where
  "logout s w =
     (let rd = ride_data w;
          rd1 = (case s_user_id s of
                   Some i \<Rightarrow> if i \<noteq> 0 \<and> i \<in> active_drivers rd
                             then rd\<lparr>active_drivers := active_drivers rd - {i}\<rparr> else rd
                 | None \<Rightarrow> rd);
          rd2 = (case s_user_id s of
                   Some i \<Rightarrow> if i \<noteq> 0 \<and> i \<in> set (map fst (user_sessions rd1))
                             then rd1\<lparr>user_sessions := AList.delete i (user_sessions rd1)\<rparr> else rd1
                 | None \<Rightarrow> rd1)
      in (message_response ''Logged out successfully'' 200, empty_session, w\<lparr>ride_data := rd2\<rparr>))"

definition get_current_user :: "session \<Rightarrow> world \<Rightarrow> result" where
  "get_current_user s w = require_auth s w
     (case s_user_id s of
        None \<Rightarrow> (failure_response ''Failed to get user'' (JStr ''KeyError''), s, w)
      | Some i \<Rightarrow>
          (case get_user (users (db w)) i of
             None \<Rightarrow> (message_response ''User not found'' 404, s, w)
           | Some user \<Rightarrow> ((user_to_dict user, 200), s, w)))"

subsection \<open>Ride handlers\<close>

definition append_driver_ride :: "(int \<times> int list) list \<Rightarrow> int \<Rightarrow> int \<Rightarrow> (int \<times> int list) list" where
  "append_driver_ride dr driver i =
     (let dr1 = (if driver \<notin> set (map fst dr) then AList.update driver [] dr else dr)
      in AList.update driver (get_or (map_of dr1 driver) [] @ [i]) dr1)"

definition create_ride :: "clock \<Rightarrow> ride_body \<Rightarrow> session \<Rightarrow> world \<Rightarrow> result" where
  "create_ride clk data s w = require_auth s w
     (if s_user_role s \<noteq> Some ''driver''
      then (message_response ''Only drivers can post rides'' 403, s, w)
      else
        (case required_ride data of
           Inl field \<Rightarrow> (message_response (''Missing field: '' @ field) 400, s, w)
         | Inr (og, de, da, ti, n, p, vt) \<Rightarrow>
             (case s_user_id s of
                None \<Rightarrow> (failure_response ''Failed to create ride'' (JStr ''KeyError''), s, w)
              | Some uid \<Rightarrow>
                  (let nt = dict_get (rb_notes data) (Some []) in
                   if overflows n \<or> overflows p
                   then (failure_response ''Failed to create ride'' (JStr ''OverflowError''), s, w)
                   else
                     (case (og, de, da, ti, n, p, vt) of
                        (Some og', Some de', Some da', Some ti', Some n', Some p', Some vt') \<Rightarrow>
                          (let ride = \<lparr>r_id = next_id (map r_id (rides (db w))), driver_id = uid,
                                       origin = og', destination = de', date = da', time = ti',
                                       available_seats = n', price = p', vehicle_type = vt',
                                       r_notes = nt,
                                       r_status = ''active'', r_created_at = Some (utcnow clk)\<rparr>;
                               d = (db w)\<lparr>rides := rides (db w) @ [ride]\<rparr>;
                               rd = ride_data w;
                               rd1 = rd\<lparr>active_rides := active_rides rd @ [r_id ride]\<rparr>;
                               rd2 = cache_ride rd1 (r_id ride) (ride_to_dict d False ride);
                               rd3 = rd2\<lparr>driver_rides :=
                                           append_driver_ride (driver_rides rd2) uid (r_id ride)\<rparr>
                           in ((ride_to_dict d False ride, 201), s, \<lparr>db = d, ride_data = rd3\<rparr>))
                      | _ \<Rightarrow>
                          \<comment> \<open>the \<^verbatim>\<open>INSERT\<close> fails on a \<^verbatim>\<open>NOT NULL\<close> column\<close>
                          (failure_response ''Failed to create ride''
                             (statement_error ''IntegrityError''
                                [JInt uid, str_or_none og, str_or_none de, str_or_none da,
                                 str_or_none ti, int_or_none n, int_or_none p, str_or_none vt,
                                 str_or_none nt, JStr ''active'', JIso (utcnow clk)]),
                           s, w))))))"

definition search_query :: "string \<Rightarrow> string \<Rightarrow> string \<Rightarrow> Ride list \<Rightarrow> Ride list" where
  "search_query p_origin p_destination p_date rs =
     (let q0 = filter (\<lambda>r. r_status r = ''active'') rs;
          q1 = (if p_origin \<noteq> [] then filter (\<lambda>r. ilike (origin r) (''%'' @ p_origin @ ''%'')) q0 else q0);
          q2 = (if p_destination \<noteq> []
                then filter (\<lambda>r. ilike (destination r) (''%'' @ p_destination @ ''%'')) q1 else q1);
          q3 = (if p_date \<noteq> [] then filter (\<lambda>r. date r = p_date) q2 else q2)
      in order_by_desc r_created_at q3)"

definition search_rides :: "clock \<Rightarrow> search_args \<Rightarrow> session \<Rightarrow> world \<Rightarrow> result" where
  "search_rides clk args s w =
     (let p_origin = get_or (arg_origin args) [];
          p_destination = get_or (arg_destination args) [];
          p_date = get_or (arg_date args) [];
          rd1 = add_to_search_history (ride_data w)
                  \<lparr>sp_origin = p_origin, sp_destination = p_destination, sp_date = p_date,
                   sp_timestamp = now clk\<rparr>;
          found = search_query p_origin p_destination p_date (rides (db w));
          rd2 = fold (\<lambda>ride rd. cache_ride rd (r_id ride) (ride_to_dict (db w) True ride)) found rd1
      in ((JArr (map (ride_to_dict (db w) True) found), 200), s, w\<lparr>ride_data := rd2\<rparr>))"

definition get_my_rides :: "session \<Rightarrow> world \<Rightarrow> result" where
  "get_my_rides s w = require_auth s w
     (if s_user_role s \<noteq> Some ''driver''
      then (message_response ''Only drivers can view posted rides'' 403, s, w)
      else
        (case s_user_id s of
           None \<Rightarrow> (failure_response ''Failed to get rides'' (JStr ''KeyError''), s, w)
         | Some uid \<Rightarrow>
             ((JArr (map (ride_to_dict (db w) False)
                      (order_by_desc r_created_at (filter (\<lambda>r. driver_id r = uid) (rides (db w))))),
               200), s, w)))"

subsection \<open>Ride request handlers\<close>

definition create_ride_request :: "clock \<Rightarrow> request_body \<Rightarrow> session \<Rightarrow> world \<Rightarrow> result" where
  "create_ride_request clk data s w = require_auth s w
     (if s_user_role s \<noteq> Some ''rider''
      then (message_response ''Only riders can request rides'' 403, s, w)
      else
        (case required_request data of
           Inl field \<Rightarrow> (message_response (''Missing field: '' @ field) 400, s, w)
         | Inr (rideId, n) \<Rightarrow>
             (case rideId of
                None \<Rightarrow>
                  \<comment> \<open>\<^verbatim>\<open>query.get(None)\<close> is \<^verbatim>\<open>None\<close>\<close>
                  (message_response ''Ride not found'' 404, s, w)
              | Some i \<Rightarrow>
                  (case get_ride (rides (db w)) i of
                     None \<Rightarrow>
                       \<comment> \<open>a key outside the range is the key of no row: binding it raises\<close>
                       if sqlite_integer i then (message_response ''Ride not found'' 404, s, w)
                       else (failure_response ''Failed to create request'' (JStr ''OverflowError''), s, w)
                   | Some ride \<Rightarrow>
                       (case n of
                          None \<Rightarrow>
                            \<comment> \<open>\<^verbatim>\<open>ride.available_seats < None\<close> raises\<close>
                            (failure_response ''Failed to create request'' (JStr ''TypeError''), s, w)
                        | Some k \<Rightarrow>
                            if available_seats ride < k
                            then (message_response ''Not enough available seats'' 400, s, w)
                            else
                              (case s_user_id s of
                                 None \<Rightarrow>
                                   (failure_response ''Failed to create request'' (JStr ''KeyError''),
                                    s, w)
                               | Some uid \<Rightarrow>
                                   if \<not> sqlite_integer k
                                   then (failure_response ''Failed to create request''
                                           (JStr ''OverflowError''), s, w)
                                   else
                                     (let ride_request =
                                            \<lparr>q_id = next_id (map q_id (ride_requests (db w))),
                                             ride_id = i, rider_id = uid, seats = k,
                                             message = dict_get (qb_message data) (Some []),
                                             q_status = ''pending'',
                                             q_created_at = Some (utcnow clk)\<rparr>;
                                          d = (db w)\<lparr>ride_requests :=
                                                       ride_requests (db w) @ [ride_request]\<rparr>
                                      in ((request_to_dict d False False ride_request, 201), s,
                                          w\<lparr>db := d\<rparr>))))))))"

definition set_key :: "json \<Rightarrow> string \<Rightarrow> json \<Rightarrow> json" where
  \<comment> \<open>\<^verbatim>\<open>d[key] = value\<close> on a dictionary\<close>
  "set_key j k v = (case j of JObj fs \<Rightarrow> JObj (AList.update k v fs) | _ \<Rightarrow> j)"

definition driver_request_dict :: "database \<Rightarrow> RideRequest \<Rightarrow> json" where
  \<comment> \<open>\<^verbatim>\<open>req.ride\<close> is the joined ride, which exists for every row of the join\<close>
  "driver_request_dict d q =
     (let req_dict = request_to_dict d True False q
      in case get_ride (rides d) (ride_id q) of
           Some ride \<Rightarrow> set_key req_dict ''ride'' (ride_to_dict d False ride)
         | None \<Rightarrow> req_dict)"

definition get_my_requests :: "session \<Rightarrow> world \<Rightarrow> result" where
  "get_my_requests s w = require_auth s w
     (case s_user_id s of
        None \<Rightarrow> (failure_response ''Failed to get requests'' (JStr ''KeyError''), s, w)
      | Some uid \<Rightarrow>
          if s_user_role s = Some ''driver'' then
            (let requests = order_by_desc q_created_at
                   (filter (\<lambda>q. case get_ride (rides (db w)) (ride_id q) of
                                   Some ride \<Rightarrow> driver_id ride = uid
                                 | None \<Rightarrow> False)
                      (ride_requests (db w)))
             in ((JArr (map (driver_request_dict (db w)) requests), 200), s, w))
          else
            (let requests = order_by_desc q_created_at
                   (filter (\<lambda>q. rider_id q = uid) (ride_requests (db w)))
             in ((JArr (map (request_to_dict (db w) False True) requests), 200), s, w)))"

definition update_request_status :: "int \<Rightarrow> status_body \<Rightarrow> session \<Rightarrow> world \<Rightarrow> result" where
  "update_request_status request_id data s w = require_auth s w
     (if s_user_role s \<noteq> Some ''driver''
      then (message_response ''Only drivers can update request status'' 403, s, w)
      else
        (case dict_get (sb_status data) None of
           None \<Rightarrow> (message_response ''Invalid status'' 400, s, w)
         | Some status \<Rightarrow>
             if status \<noteq> ''accepted'' \<and> status \<noteq> ''declined''
             then (message_response ''Invalid status'' 400, s, w)
             else
               (case get_request (ride_requests (db w)) request_id of
                  None \<Rightarrow>
                    \<comment> \<open>a key outside the range is the key of no row: binding it raises\<close>
                    if sqlite_integer request_id
                    then (message_response ''Request not found'' 404, s, w)
                    else (failure_response ''Failed to update request'' (JStr ''OverflowError''), s, w)
                | Some ride_request \<Rightarrow>
                    (case get_ride (rides (db w)) (ride_id ride_request) of
                       None \<Rightarrow> (message_response ''Unauthorized'' 403, s, w)
                     | Some ride \<Rightarrow>
                         (case s_user_id s of
                            None \<Rightarrow>
                              (failure_response ''Failed to update request'' (JStr ''KeyError''), s, w)
                          | Some uid \<Rightarrow>
                              if driver_id ride \<noteq> uid
                              then (message_response ''Unauthorized'' 403, s, w)
                              else
                                (let qs = map (\<lambda>q. if q_id q = q_id ride_request
                                                    then q\<lparr>q_status := status\<rparr> else q)
                                            (ride_requests (db w));
                                     left = available_seats ride - seats ride_request;
                                     rs = (if status = ''accepted''
                                           then map (\<lambda>r. if r_id r = r_id ride
                                                          then r\<lparr>available_seats := left\<rparr> else r)
                                                  (rides (db w))
                                           else rides (db w));
                                     rd = ride_data w;
                                     rd1 = (if status = ''accepted'' \<and> left \<le> 0
                                               \<and> r_id ride \<in> set (active_rides rd)
                                            then rd\<lparr>active_rides := remove1 (r_id ride) (active_rides rd)\<rparr>
                                            else rd)
                                 in if status = ''accepted'' \<and> \<not> sqlite_integer left
                                    then
                                      \<comment> \<open>the commit fails: the rows stay as they were\<close>
                                      (failure_response ''Failed to update request''
                                         (JStr ''OverflowError''), s, w\<lparr>ride_data := rd1\<rparr>)
                                    else
                                      (message_response ''Request updated successfully'' 200, s,
                                       \<lparr>db = (db w)\<lparr>ride_requests := qs, rides := rs\<rparr>,
                                        ride_data = rd1\<rparr>)))))))"

subsection \<open>The demonstration endpoint and the dispatch\<close>

definition search_params_to_dict :: "search_params \<Rightarrow> json" where
  "search_params_to_dict sp = JObj
     [(''origin'', JStr (sp_origin sp)), (''destination'', JStr (sp_destination sp)),
      (''date'', JStr (sp_date sp)), (''timestamp'', JIso (sp_timestamp sp))]"

definition len :: "'a list \<Rightarrow> json" where
  "len xs = JInt (int (length xs))"

definition demo_data_structures :: "session \<Rightarrow> world \<Rightarrow> result" where
  "demo_data_structures s w =
     (let rd = ride_data w in
      ((JObj
         [(''message'', JStr ''Data Structures Demo''),
          (''structures'', JObj
            [(''lists'', JObj
               [(''active_rides'', len (active_rides rd)),
                (''search_history'', len (search_history rd)),
                (''description'', JStr ''Used for ordered collections, easy iteration, dynamic sizing'')]),
             (''dictionaries'', JObj
               [(''user_sessions'', len (user_sessions rd)),
                (''ride_cache'', len (ride_cache rd)),
                (''driver_rides'', len (driver_rides rd)),
                (''description'', JStr ''Used for fast O(1) lookups, key-value mapping, caching'')]),
             (''sets'', JObj
               [(''unique_emails'', JInt (int (card (unique_emails rd)))),
                (''active_drivers'', JInt (int (card (active_drivers rd)))),
                (''blocked_users'', JInt (int (card (blocked_users rd)))),
                (''description'', JStr ''Used for uniqueness, fast membership testing, no duplicates'')]),
             (''tuples'', JObj
               [(''popular_routes'', len popular_routes),
                (''description'', JStr ''Used for immutable grouped data, coordinate pairs'')])]),
          (''recent_searches'',
             JArr (map search_params_to_dict
                    (drop (length (search_history rd) - 3) (search_history rd))))],
        200), s, w))"

datatype request =
    Register register_body
  | Login login_body
  | Logout
  | GetCurrentUser
  | CreateRide ride_body
  | SearchRides search_args
  | GetMyRides
  | CreateRideRequest request_body
  | GetMyRequests
  | UpdateRequestStatus int status_body
  | DemoDataStructures

definition method_not_allowed :: response where
  \<comment> \<open>the answer of the router, a page and not JSON\<close>
  "method_not_allowed = (JStr ''Method Not Allowed'', 405)"

text \<open>
  The route of update-request-status is \<^verbatim>\<open>/api/requests/<int:request_id>\<close>, and the
  converter \<^verbatim>\<open>int\<close> takes digits only. A path with a negative number falls to the route
  of the static files, which allows \<^verbatim>\<open>GET\<close> only: the handler is not called.
\<close>

fun handle ::
  "(string \<Rightarrow> string) \<Rightarrow> (string \<Rightarrow> string \<Rightarrow> bool) \<Rightarrow> clock \<Rightarrow> request \<Rightarrow> session \<Rightarrow> world \<Rightarrow> result" where
  "handle gph cph clk (Register data) s w = register gph clk data s w"
| "handle gph cph clk (Login data) s w = login cph clk data s w"
| "handle gph cph clk Logout s w = logout s w"
| "handle gph cph clk GetCurrentUser s w = get_current_user s w"
| "handle gph cph clk (CreateRide data) s w = create_ride clk data s w"
| "handle gph cph clk (SearchRides args) s w = search_rides clk args s w"
| "handle gph cph clk GetMyRides s w = get_my_rides s w"
| "handle gph cph clk (CreateRideRequest data) s w = create_ride_request clk data s w"
| "handle gph cph clk GetMyRequests s w = get_my_requests s w"
| "handle gph cph clk (UpdateRequestStatus request_id data) s w =
     (if request_id < 0 then (method_not_allowed, s, w)
      else update_request_status request_id data s w)"
| "handle gph cph clk DemoDataStructures s w = demo_data_structures s w"

subsection \<open>Serving a sequence of requests\<close>

text \<open>
  The server handles one request after the other. Each client carries its own session
  (the session cookie); the database and the in-process collections are shared.
\<close>

fun serve ::
  "(string \<Rightarrow> string) \<Rightarrow> (string \<Rightarrow> string \<Rightarrow> bool) \<Rightarrow> (nat \<times> clock \<times> request) list
     \<Rightarrow> (nat \<Rightarrow> session) \<Rightarrow> world \<Rightarrow> response list \<times> (nat \<Rightarrow> session) \<times> world" where
  "serve gph cph [] ss w = ([], ss, w)"
| "serve gph cph ((client, clk, req) # rest) ss w =
     (case handle gph cph clk req (ss client) w of (resp, s', w') \<Rightarrow>
        (case serve gph cph rest (ss(client := s')) w' of (resps, ss', w'') \<Rightarrow>
           (resp # resps, ss', w'')))"

definition final_world :: "response list \<times> (nat \<Rightarrow> session) \<times> world \<Rightarrow> world" where
  "final_world run = snd (snd run)"

subsection \<open>A concrete scenario\<close>

text \<open>
  A driver registers and posts a ride with three seats; a rider registers and asks for
  two of them. The later examples start from this state.
\<close>

definition example_hash :: "string \<Rightarrow> string" where
  "example_hash pw = ''salt$'' @ pw"

definition example_check :: "string \<Rightarrow> string \<Rightarrow> bool" where
  "example_check h pw = (h = ''salt$'' @ pw)"

definition at :: "nat \<Rightarrow> clock" where
  "at t = \<lparr>utcnow = t, now = t\<rparr>"

definition example_driver :: register_body where
  "example_driver = \<lparr>reg_firstName = Value ''Asha'', reg_lastName = Value ''Rao'',
     reg_email = Value ''asha@example.org'', reg_phone = Value ''100'', reg_password = Value ''pw1'',
     reg_role = Value ''driver''\<rparr>"

definition example_rider :: register_body where
  "example_rider = \<lparr>reg_firstName = Value ''Ravi'', reg_lastName = Value ''Iyer'',
     reg_email = Value ''ravi@example.org'', reg_phone = Value ''200'', reg_password = Value ''pw2'',
     reg_role = Value ''rider''\<rparr>"

definition example_ride :: ride_body where
  "example_ride = \<lparr>rb_origin = Value ''Pune Station'', rb_destination = Value ''Hadapsar'',
     rb_date = Value ''2025-01-01'', rb_time = Value ''09:00'', rb_availableSeats = Value 3,
     rb_price = Value 50, rb_vehicleType = Value ''car'', rb_notes = Absent\<rparr>"

definition example_request :: request_body where
  "example_request = \<lparr>qb_rideId = Value 1, qb_seats = Value 2, qb_message = Absent\<rparr>"

definition example_setup :: "(nat \<times> clock \<times> request) list" where
  "example_setup =
     [(1, at 1, Register example_driver),
      (1, at 2, CreateRide example_ride),
      (2, at 3, Register example_rider),
      (2, at 4, CreateRideRequest example_request)]"

definition no_sessions :: "nat \<Rightarrow> session" where
  "no_sessions client = empty_session"

definition example_world :: world where
  "example_world =
     final_world (serve example_hash example_check example_setup no_sessions init_world)"

definition driver_session :: session where
  "driver_session = \<lparr>s_user_id = Some 1, s_user_role = Some ''driver''\<rparr>"

definition rider_session :: session where
  "rider_session = \<lparr>s_user_id = Some 2, s_user_role = Some ''rider''\<rparr>"

definition accept :: status_body where
  "accept = \<lparr>sb_status = Value ''accepted''\<rparr>"

definition decline :: status_body where
  "decline = \<lparr>sb_status = Value ''declined''\<rparr>"

definition example_user1 :: User where
  "example_user1 = \<lparr>u_id = 1, first_name = ''Asha'', last_name = ''Rao'', email = ''asha@example.org'',
     phone = ''100'', password_hash = ''salt$pw1'', role = ''driver'', rating = 5,
     total_rides = 0, u_created_at = Some 1\<rparr>"

definition example_user2 :: User where
  "example_user2 = \<lparr>u_id = 2, first_name = ''Ravi'', last_name = ''Iyer'', email = ''ravi@example.org'',
     phone = ''200'', password_hash = ''salt$pw2'', role = ''rider'', rating = 5,
     total_rides = 0, u_created_at = Some 3\<rparr>"

definition example_ride1 :: Ride where
  "example_ride1 = \<lparr>r_id = 1, driver_id = 1, origin = ''Pune Station'', destination = ''Hadapsar'',
     date = ''2025-01-01'', time = ''09:00'', available_seats = 3, price = 50,
     vehicle_type = ''car'', r_notes = Some [], r_status = ''active'', r_created_at = Some 2\<rparr>"

definition example_request1 :: RideRequest where
  "example_request1 = \<lparr>q_id = 1, ride_id = 1, rider_id = 2, seats = 2, message = Some [],
     q_status = ''pending'', q_created_at = Some 4\<rparr>"

definition overbooking :: "(nat \<times> clock \<times> request) list" where
  \<comment> \<open>the rider asks a second time for two of the three seats; the driver accepts both requests\<close>
  "overbooking = example_setup @
     [(2, at 5, CreateRideRequest example_request),
      (1, at 6, UpdateRequestStatus 1 accept),
      (1, at 7, UpdateRequestStatus 2 accept)]"

definition accept_once :: "(nat \<times> clock \<times> request) list" where
  "accept_once = example_setup @ [(1, at 5, UpdateRequestStatus 1 accept)]"

definition accept_then_decline :: "(nat \<times> clock \<times> request) list" where
  "accept_then_decline = accept_once @ [(1, at 6, UpdateRequestStatus 1 decline)]"

definition two_seat_world :: world where
  \<comment> \<open>the scenario with a ride of two seats, all of them asked for\<close>
  "two_seat_world =
     example_world\<lparr>db := (db example_world)\<lparr>rides := [example_ride1\<lparr>available_seats := 2\<rparr>]\<rparr>\<rparr>"

definition full_ride :: ride_body where
  \<comment> \<open>the ride of the scenario with the largest number of seats that the column holds\<close>
  "full_ride = example_ride\<lparr>rb_availableSeats := Value 9223372036854775807\<rparr>"

definition giving_back :: request_body where
  \<comment> \<open>a request for minus one seat\<close>
  "giving_back = \<lparr>qb_rideId = Value 1, qb_seats = Value (- 1), qb_message = Absent\<rparr>"

definition seat_overflow_setup :: "(nat \<times> clock \<times> request) list" where
  "seat_overflow_setup =
     [(1, at 1, Register example_driver),
      (1, at 2, CreateRide full_ride),
      (2, at 3, Register example_rider),
      (2, at 4, CreateRideRequest giving_back)]"

definition seat_overflow :: "(nat \<times> clock \<times> request) list" where
  "seat_overflow = seat_overflow_setup @ [(1, at 5, UpdateRequestStatus 1 accept)]"

definition null_password :: "string \<Rightarrow> login_body" where
  \<comment> \<open>the body \<^verbatim>\<open>{"email": e, "password": null}\<close>\<close>
  "null_password e = \<lparr>login_email = Value e, login_password = Null\<rparr>"

definition null_role :: register_body where
  "null_role = \<lparr>reg_firstName = Value ''Mira'', reg_lastName = Value ''Das'',
     reg_email = Value ''mira@example.org'', reg_phone = Value ''300'', reg_password = Value ''pw3'',
     reg_role = Null\<rparr>"

definition example_admin :: register_body where
  "example_admin = example_driver\<lparr>reg_role := Value ''admin''\<rparr>"

subsection \<open>Devices of the statements\<close>

definition rehash_user :: "(string \<Rightarrow> string) \<Rightarrow> User \<Rightarrow> User" where
  "rehash_user f u = u\<lparr>password_hash := f (password_hash u)\<rparr>"

definition rehash :: "(string \<Rightarrow> string) \<Rightarrow> world \<Rightarrow> world" where
  \<comment> \<open>the same server state with every stored password hash replaced\<close>
  "rehash f w = w\<lparr>db := (db w)\<lparr>users := map (rehash_user f) (users (db w))\<rparr>\<rparr>"




definition reversed_hash :: "string \<Rightarrow> string" where
  "reversed_hash h = rev h"

definition reversed_check :: "string \<Rightarrow> string \<Rightarrow> bool" where
  "reversed_check h pw = example_check (rev h) pw"



section \<open>Properties\<close>

subsection \<open>Evaluating the scenario\<close>

lemmas example_defs = example_world_def final_world_def no_sessions_def example_setup_def example_request_def
  example_ride_def example_rider_def example_driver_def at_def example_hash_def example_check_def
  init_world_def init_ride_data_def empty_session_def driver_session_def rider_session_def
  accept_def decline_def overbooking_def accept_once_def accept_then_decline_def example_admin_def
  example_user1_def example_user2_def example_ride1_def example_request1_def
  full_ride_def giving_back_def seat_overflow_setup_def seat_overflow_def null_password_def
  null_role_def

lemmas handler_defs = register_def create_ride_def create_ride_request_def
  update_request_status_def login_def logout_def require_auth_def required_register_def
  required_ride_def required_request_def require_def get_or_def dict_get_def add_user_email_def
  bind_session_def cache_user_session_def cache_ride_def append_driver_ride_def next_id_def
  get_ride_def get_user_def get_request_def message_response_def filter_by_email_def
  overflows_def sqlite_integer_def failure_response_def statement_error_def

lemma example_db:
  "db example_world =
     \<lparr>users = [example_user1, example_user2], rides = [example_ride1],
      ride_requests = [example_request1]\<rparr>"
  by (simp add: example_defs handler_defs Let_def)

subsection \<open>Lookups by primary key\<close>

lemma find_map_update:
  assumes "\<And>r. key (f r) = key r"
  shows "find (\<lambda>r. key r = i) (map (\<lambda>r. if key r = j then f r else r) rs)
       = map_option (\<lambda>r. if key r = j then f r else r) (find (\<lambda>r. key r = i) rs)"
  using assms by (induction rs) auto

lemma get_ride_update:
  "get_ride (map (\<lambda>r. if r_id r = j then r\<lparr>available_seats := n\<rparr> else r) rs) i
     = map_option (\<lambda>r. if r_id r = j then r\<lparr>available_seats := n\<rparr> else r) (get_ride rs i)"
  unfolding get_ride_def by (rule find_map_update) simp

lemma get_request_update:
  "get_request (map (\<lambda>q. if q_id q = j then q\<lparr>q_status := st\<rparr> else q) qs) i
     = map_option (\<lambda>q. if q_id q = j then q\<lparr>q_status := st\<rparr> else q) (get_request qs i)"
  unfolding get_request_def by (rule find_map_update) simp

lemma find_key: "find (\<lambda>r. key r = i) rs = Some r \<Longrightarrow> key r = i"
  by (induction rs) (auto split: if_splits)

lemma get_ride_id: "get_ride rs i = Some r \<Longrightarrow> r_id r = i"
  unfolding get_ride_def by (rule find_key)

lemma get_request_id: "get_request qs i = Some q \<Longrightarrow> q_id q = i"
  unfolding get_request_def by (rule find_key)

subsection \<open>Updating the status of a request\<close>

lemma update_request_status_ok:
  assumes "s_user_id s = Some uid" and "s_user_role s = Some ''driver''"
    and "sb_status data = Value status" and "status = ''accepted'' \<or> status = ''declined''"
    and "get_request (ride_requests (db w)) request_id = Some q"
    and "get_ride (rides (db w)) (ride_id q) = Some r" and "driver_id r = uid"
    and "status = ''declined'' \<or> sqlite_integer (available_seats r - seats q)"
  shows "update_request_status request_id data s w =
    (message_response ''Request updated successfully'' 200, s,
     \<lparr>db = (db w)\<lparr>ride_requests := map (\<lambda>x. if q_id x = request_id then x\<lparr>q_status := status\<rparr> else x)
                                       (ride_requests (db w)),
                  rides := (if status = ''accepted''
                            then map (\<lambda>x. if r_id x = ride_id q
                                           then x\<lparr>available_seats := available_seats r - seats q\<rparr> else x)
                                   (rides (db w))
                            else rides (db w))\<rparr>,
       ride_data = (if status = ''accepted'' \<and> available_seats r - seats q \<le> 0
                       \<and> ride_id q \<in> set (active_rides (ride_data w))
                    then (ride_data w)\<lparr>active_rides := remove1 (ride_id q) (active_rides (ride_data w))\<rparr>
                    else ride_data w)\<rparr>)"
  using assms get_ride_id[OF assms(6)] get_request_id[OF assms(5)]
  by (auto simp: update_request_status_def require_auth_def Let_def dict_get_def)

lemma update_request_status_overflow:
  assumes "s_user_id s = Some uid" and "s_user_role s = Some ''driver''"
    and "sb_status data = Value ''accepted''"
    and "get_request (ride_requests (db w)) request_id = Some q"
    and "get_ride (rides (db w)) (ride_id q) = Some r" and "driver_id r = uid"
    and "\<not> sqlite_integer (available_seats r - seats q)"
  shows "fst (update_request_status request_id data s w)
           = failure_response ''Failed to update request'' (JStr ''OverflowError'')
       \<and> db (snd (snd (update_request_status request_id data s w))) = db w"
  using assms
  by (auto simp: update_request_status_def require_auth_def Let_def dict_get_def)

text \<open>
  C3, with the range of the column. When the driver who owns the ride accepts a request
  for \<open>seats q\<close> seats and the seats that are left fit the 64 bits of the column, the
  operation answers with the success acknowledgment (status 200), the ride the request
  refers to has its available seats reduced by exactly \<open>seats q\<close>, and the status of the
  request is \<open>accepted\<close>.
\<close>

theorem accept_reduces_seats:
  assumes "s_user_id s = Some uid" and "s_user_role s = Some ''driver''"
    and "get_request (ride_requests (db w)) request_id = Some q"
    and "get_ride (rides (db w)) (ride_id q) = Some r" and "driver_id r = uid"
    and "sqlite_integer (available_seats r - seats q)"
  shows "\<exists>w'. update_request_status request_id \<lparr>sb_status = Value ''accepted''\<rparr> s w
               = (message_response ''Request updated successfully'' 200, s, w')
          \<and> get_ride (rides (db w')) (ride_id q)
               = Some (r\<lparr>available_seats := available_seats r - seats q\<rparr>)
          \<and> get_request (ride_requests (db w')) request_id = Some (q\<lparr>q_status := ''accepted''\<rparr>)"
  using assms get_ride_id[OF assms(4)] get_request_id[OF assms(3)]
  by (simp add: update_request_status_ok[where status="''accepted''" and q=q and r=r and uid=uid]
       get_ride_update get_request_update)

theorem accept_reduces_seats_witness:
  "s_user_id driver_session = Some 1 \<and> s_user_role driver_session = Some ''driver''
   \<and> get_request (ride_requests (db example_world)) 1 = Some example_request1
   \<and> get_ride (rides (db example_world)) (ride_id example_request1) = Some example_ride1
   \<and> driver_id example_ride1 = 1
   \<and> sqlite_integer (available_seats example_ride1 - seats example_request1)
   \<and> (\<exists>w'. update_request_status 1 \<lparr>sb_status = Value ''accepted''\<rparr> driver_session example_world
               = (message_response ''Request updated successfully'' 200, driver_session, w')
          \<and> get_ride (rides (db w')) 1 = Some (example_ride1\<lparr>available_seats := 1\<rparr>)
          \<and> get_request (ride_requests (db w')) 1 = Some (example_request1\<lparr>q_status := ''accepted''\<rparr>))"
proof -
  have h1: "s_user_id driver_session = Some 1" and h2: "s_user_role driver_session = Some ''driver''"
    by (simp_all add: driver_session_def)
  have h3: "get_request (ride_requests (db example_world)) 1 = Some example_request1"
    by (simp add: example_db get_request_def example_request1_def)
  have h4: "get_ride (rides (db example_world)) (ride_id example_request1) = Some example_ride1"
    by (simp add: example_db get_ride_def example_request1_def example_ride1_def)
  have h5: "driver_id example_ride1 = 1"
    by (simp add: example_ride1_def)
  have h6: "sqlite_integer (available_seats example_ride1 - seats example_request1)"
    by (simp add: sqlite_integer_def example_ride1_def example_request1_def)
  have seats: "ride_id example_request1 = 1" "available_seats example_ride1 - seats example_request1 = 1"
    by (simp_all add: example_request1_def example_ride1_def)
  from accept_reduces_seats[OF h1 h2 h3 h4 h5 h6] h1 h2 h3 h4 h5 h6 show ?thesis
    by (simp add: seats)
qed

text \<open>
  C3, read literally, does not hold. The driver posts a ride with \<open>2\<^sup>6\<^sup>3 - 1\<close> seats, the
  rider asks for \<open>-1\<close> seats, which create-ride-request lets pass, and the driver, who
  owns the ride, accepts: the seats that would be left do not fit the column, the commit
  fails, the answer is 500, the ride keeps its seats and the request stays \<open>pending\<close>.
\<close>

theorem acceptance_can_fail_on_commit:
  "map snd (fst (serve example_hash example_check seat_overflow no_sessions init_world))
     = [201, 201, 201, 201, 500]
   \<and> map available_seats (rides (db (final_world
        (serve example_hash example_check seat_overflow no_sessions init_world))))
     = [9223372036854775807]
   \<and> map seats (ride_requests (db (final_world
        (serve example_hash example_check seat_overflow no_sessions init_world)))) = [- 1]
   \<and> map q_status (ride_requests (db (final_world
        (serve example_hash example_check seat_overflow no_sessions init_world)))) = [''pending'']"
  by (simp add: example_defs handler_defs Let_def)

subsection \<open>What each handler can do\<close>

lemma register_cases:
  assumes "register gph clk data s w = (resp, s', w')"
  shows "((snd resp = 400 \<or> snd resp = 500) \<and> s' = s \<and> db w' = db w) \<or>
         (\<exists>u fn ln e ph pw r.
              required_register data = Inr (Some fn, Some ln, Some e, Some ph, Some pw, Some r) \<and>
              find (\<lambda>x. email x = e) (users (db w)) = None \<and>
              u = \<lparr>u_id = next_id (map u_id (users (db w))),
                                 first_name = fn, last_name = ln, email = e, phone = ph,
                                 password_hash = gph pw, role = r,
                                 rating = 5, total_rides = 0,
                                 u_created_at = Some (utcnow clk)\<rparr> \<and>
              resp = (user_to_dict u, 201) \<and> s' = bind_session s u \<and>
              db w' = (db w)\<lparr>users := users (db w) @ [u]\<rparr>)"
  using assms
  by (auto simp: register_def message_response_def failure_response_def Let_def add_user_email_def
        filter_by_email_def
      split: sum.splits prod.splits option.splits if_splits)

lemma login_cases:
  assumes "login cph clk data s w = (resp, s', w')"
  shows "db w' = db w \<and>
         ((resp = message_response ''Email and password required'' 400 \<and> s' = s \<and> w' = w) \<or>
          (resp = message_response ''Invalid credentials'' 401 \<and> s' = s \<and> w' = w) \<or>
          (resp = failure_response ''Login failed'' (JStr ''AttributeError'') \<and> s' = s \<and> w' = w) \<or>
          (\<exists>u e pw. login_email data = Value e \<and> login_password data = Value pw \<and>
              find (\<lambda>x. email x = e) (users (db w)) = Some u \<and>
              cph (password_hash u) pw \<and> resp = (user_to_dict u, 200) \<and> s' = bind_session s u))"
  using assms
  by (auto simp: login_def Let_def dict_get_def filter_by_email_def
      split: option.splits if_splits field.splits)

lemma logout_cases:
  assumes "logout s w = (resp, s', w')"
  shows "db w' = db w \<and> snd resp = 200"
  using assms
  by (auto simp: logout_def message_response_def Let_def split: option.splits if_splits)

lemma get_current_user_cases:
  assumes "get_current_user s w = (resp, s', w')"
  shows "w' = w \<and> s' = s"
  using assms
  by (auto simp: get_current_user_def require_auth_def split: option.splits if_splits)

lemma create_ride_cases:
  assumes "create_ride clk data s w = (resp, s', w')"
  shows "s' = s \<and> ((snd resp \<in> {400, 401, 403, 500} \<and> w' = w) \<or>
         (\<exists>r uid og de da ti n p vt. s_user_id s = Some uid \<and> s_user_role s = Some ''driver'' \<and>
              required_ride data = Inr (Some og, Some de, Some da, Some ti, Some n, Some p, Some vt) \<and>
              r = \<lparr>r_id = next_id (map r_id (rides (db w))), driver_id = uid,
                               origin = og, destination = de, date = da, time = ti,
                               available_seats = n, price = p, vehicle_type = vt,
                               r_notes = dict_get (rb_notes data) (Some []),
                               r_status = ''active'', r_created_at = Some (utcnow clk)\<rparr> \<and>
              db w' = (db w)\<lparr>rides := rides (db w) @ [r]\<rparr> \<and>
              resp = (ride_to_dict (db w') False r, 201)))"
  using assms
  by (auto simp: create_ride_def require_auth_def message_response_def failure_response_def Let_def dict_get_def overflows_def
      split: sum.splits prod.splits option.splits if_splits)

lemma search_rides_cases:
  assumes "search_rides clk args s w = (resp, s', w')"
  shows "db w' = db w \<and> s' = s \<and> snd resp = 200"
  using assms
  by (auto simp: search_rides_def Let_def)

lemma get_my_rides_cases:
  assumes "get_my_rides s w = (resp, s', w')"
  shows "w' = w \<and> s' = s"
  using assms
  by (auto simp: get_my_rides_def require_auth_def split: option.splits if_splits)

lemma create_ride_request_cases:
  assumes "create_ride_request clk data s w = (resp, s', w')"
  shows "s' = s \<and> ((snd resp \<in> {400, 401, 403, 404, 500} \<and> w' = w) \<or>
         (\<exists>q uid r i n. s_user_id s = Some uid \<and> s_user_role s = Some ''rider'' \<and>
              required_request data = Inr (Some i, Some n) \<and>
              get_ride (rides (db w)) i = Some r \<and> n \<le> available_seats r \<and>
              q = \<lparr>q_id = next_id (map q_id (ride_requests (db w))),
                                 ride_id = i, rider_id = uid, seats = n,
                                 message = dict_get (qb_message data) (Some []),
                                 q_status = ''pending'', q_created_at = Some (utcnow clk)\<rparr> \<and>
              w' = w\<lparr>db := (db w)\<lparr>ride_requests := ride_requests (db w) @ [q]\<rparr>\<rparr> \<and>
              resp = (request_to_dict (db w') False False q, 201)))"
  using assms
  by (auto simp: create_ride_request_def require_auth_def message_response_def failure_response_def dict_get_def overflows_def
        Let_def
      split: sum.splits prod.splits option.splits if_splits)

lemma get_my_requests_cases:
  assumes "get_my_requests s w = (resp, s', w')"
  shows "w' = w \<and> s' = s"
  using assms
  by (auto simp: get_my_requests_def require_auth_def Let_def split: option.splits if_splits)

lemma demo_cases:
  assumes "demo_data_structures s w = (resp, s', w')"
  shows "w' = w \<and> s' = s \<and> snd resp = 200"
  using assms
  by (auto simp: demo_data_structures_def Let_def)

lemma update_request_status_cases:
  assumes "update_request_status request_id data s w = (resp, s', w')"
  shows "s' = s \<and> ((snd resp \<in> {400, 401, 403, 404, 500} \<and> db w' = db w) \<or>
         (\<exists>q r uid status. resp = message_response ''Request updated successfully'' 200 \<and>
              s_user_id s = Some uid \<and> s_user_role s = Some ''driver'' \<and>
              sb_status data = Value status \<and> (status = ''accepted'' \<or> status = ''declined'') \<and>
              get_request (ride_requests (db w)) request_id = Some q \<and>
              get_ride (rides (db w)) (ride_id q) = Some r \<and> driver_id r = uid \<and>
              (status = ''declined'' \<or> sqlite_integer (available_seats r - seats q))))"
  using assms
  by (auto simp: update_request_status_def require_auth_def message_response_def failure_response_def dict_get_def overflows_def
        Let_def
      split: sum.splits prod.splits option.splits if_splits field.splits)

subsection \<open>Failing requests\<close>

lemma handle_failure_db:
  assumes "handle gph cph clk req s w = (resp, s', w')" and "snd resp \<in> {400, 401, 403, 404}"
  shows "db w' = db w"
proof (cases req)
  case (Register data)
  with assms register_cases[of gph clk data s w resp s' w'] show ?thesis by auto
next
  case (Login data)
  with assms login_cases[of cph clk data s w resp s' w'] show ?thesis by auto
next
  case Logout
  with assms logout_cases[of s w resp s' w'] show ?thesis by auto
next
  case GetCurrentUser
  with assms get_current_user_cases[of s w resp s' w'] show ?thesis by auto
next
  case (CreateRide data)
  with assms create_ride_cases[of clk data s w resp s' w'] show ?thesis by auto
next
  case (SearchRides args)
  with assms search_rides_cases[of clk args s w resp s' w'] show ?thesis by auto
next
  case GetMyRides
  with assms get_my_rides_cases[of s w resp s' w'] show ?thesis by auto
next
  case (CreateRideRequest data)
  with assms create_ride_request_cases[of clk data s w resp s' w'] show ?thesis by auto
next
  case GetMyRequests
  with assms get_my_requests_cases[of s w resp s' w'] show ?thesis by auto
next
  case (UpdateRequestStatus i data)
  with assms update_request_status_cases[of i data s w resp s' w'] show ?thesis
    by (auto simp: message_response_def method_not_allowed_def split: if_splits)
next
  case DemoDataStructures
  with assms demo_cases[of s w resp s' w'] show ?thesis by auto
qed

text \<open>
  C4. A handler that answers with a validation error (400), an authentication or
  authorization error (401, 403) or a not-found error (404) leaves the database as it
  was. In particular a rider who calls create-ride gets 403 and the server state is
  unchanged (no ride row is created), and a request for more seats than the ride has
  available gets 400 and the server state is unchanged (no request row is created).
\<close>

theorem failures_leave_store_unchanged:
  "(\<forall>resp s' w'. handle gph cph clk req s w = (resp, s', w') \<longrightarrow>
        snd resp \<in> {400, 401, 403, 404} \<longrightarrow> db w' = db w)
   \<and> (s_user_id s \<noteq> None \<longrightarrow> s_user_role s = Some ''rider'' \<longrightarrow>
        create_ride clk rb s w = (message_response ''Only drivers can post rides'' 403, s, w))
   \<and> (s_user_id s \<noteq> None \<longrightarrow> s_user_role s = Some ''rider'' \<longrightarrow>
        qb_rideId qb = Value i \<longrightarrow> qb_seats qb = Value n \<longrightarrow>
        get_ride (rides (db w)) i = Some r \<longrightarrow> available_seats r < n \<longrightarrow>
        create_ride_request clk qb s w = (message_response ''Not enough available seats'' 400, s, w))"
proof (intro conjI allI impI)
  fix resp s' w'
  assume "handle gph cph clk req s w = (resp, s', w')" and "snd resp \<in> {400, 401, 403, 404}"
  then show "db w' = db w" by (rule handle_failure_db)
next
  assume "s_user_id s \<noteq> None" and "s_user_role s = Some ''rider''"
  then show "create_ride clk rb s w = (message_response ''Only drivers can post rides'' 403, s, w)"
    by (auto simp: create_ride_def require_auth_def)
next
  assume "s_user_id s \<noteq> None" and "s_user_role s = Some ''rider''"
    and "qb_rideId qb = Value i" and "qb_seats qb = Value n"
    and "get_ride (rides (db w)) i = Some r" and "available_seats r < n"
  then show "create_ride_request clk qb s w = (message_response ''Not enough available seats'' 400, s, w)"
    by (auto simp: create_ride_request_def require_auth_def required_request_def require_def)
qed

theorem failures_leave_store_unchanged_witness:
  "fst (handle example_hash example_check (at 5) (Register example_driver) empty_session
          (example_world\<lparr>ride_data := init_ride_data\<rparr>))
     = message_response ''User already exists'' 400
   \<and> db (snd (snd (handle example_hash example_check (at 5) (Register example_driver) empty_session
          (example_world\<lparr>ride_data := init_ride_data\<rparr>))))
     = db example_world
   \<and> create_ride (at 5) example_ride rider_session example_world
     = (message_response ''Only drivers can post rides'' 403, rider_session, example_world)
   \<and> create_ride_request (at 5) \<lparr>qb_rideId = Value 1, qb_seats = Value 4, qb_message = Absent\<rparr>
        rider_session example_world
     = (message_response ''Not enough available seats'' 400, rider_session, example_world)"
proof -
  let ?w = "example_world\<lparr>ride_data := init_ride_data\<rparr>"
  let ?run = "handle example_hash example_check (at 5) (Register example_driver) empty_session ?w"
  have resp: "fst ?run = message_response ''User already exists'' 400"
    by (simp add: register_def required_register_def require_def example_driver_def
        add_user_email_def init_ride_data_def example_db example_user1_def filter_by_email_def)
  have code: "snd (fst ?run) \<in> {400, 401, 403, 404}"
    using resp by (simp add: message_response_def)
  have run: "?run = (fst ?run, fst (snd ?run), snd (snd ?run))"
    by simp
  from failures_leave_store_unchanged[of example_hash example_check "at 5"
      "Register example_driver" empty_session ?w] run code
  have store: "db (snd (snd ?run)) = db ?w"
    by blast
  have a: "s_user_id rider_session \<noteq> None" "s_user_role rider_session = Some ''rider''"
    by (simp_all add: rider_session_def)
  have r: "get_ride (rides (db example_world)) 1 = Some example_ride1"
    "available_seats example_ride1 < 4"
    by (simp_all add: example_db get_ride_def example_ride1_def)
  from failures_leave_store_unchanged[of example_hash example_check "at 5"
      "CreateRide example_ride" rider_session example_world example_ride
      "\<lparr>qb_rideId = Value 1, qb_seats = Value 4, qb_message = Absent\<rparr>" 1 4 example_ride1] a r
  have rest: "create_ride (at 5) example_ride rider_session example_world
       = (message_response ''Only drivers can post rides'' 403, rider_session, example_world)"
    "create_ride_request (at 5) \<lparr>qb_rideId = Value 1, qb_seats = Value 4, qb_message = Absent\<rparr>
        rider_session example_world
       = (message_response ''Not enough available seats'' 400, rider_session, example_world)"
    by simp_all
  from resp store rest show ?thesis
    by simp
qed

subsection \<open>What a request changes in the database\<close>

lemma update_request_status_db:
  assumes "update_request_status request_id data s w = (resp, s', w')"
  shows "db w' = db w \<or>
     (\<exists>q r uid status. s_user_id s = Some uid \<and> s_user_role s = Some ''driver'' \<and>
        sb_status data = Value status \<and> (status = ''accepted'' \<or> status = ''declined'') \<and>
        get_request (ride_requests (db w)) request_id = Some q \<and>
        get_ride (rides (db w)) (ride_id q) = Some r \<and> driver_id r = uid \<and>
        db w' = (db w)\<lparr>ride_requests :=
                          map (\<lambda>x. if q_id x = request_id then x\<lparr>q_status := status\<rparr> else x)
                            (ride_requests (db w)),
                      rides := (if status = ''accepted''
                                then map (\<lambda>x. if r_id x = ride_id q
                                          then x\<lparr>available_seats := available_seats r - seats q\<rparr>
                                          else x) (rides (db w))
                                else rides (db w))\<rparr>)"
proof -
  from update_request_status_cases[OF assms]
  consider "db w' = db w"
    | q r uid status where "s_user_id s = Some uid" "s_user_role s = Some ''driver''"
        "sb_status data = Value status" "status = ''accepted'' \<or> status = ''declined''"
        "get_request (ride_requests (db w)) request_id = Some q"
        "get_ride (rides (db w)) (ride_id q) = Some r" "driver_id r = uid"
        "status = ''declined'' \<or> sqlite_integer (available_seats r - seats q)"
    by blast
  then show ?thesis
  proof cases
    case 1
    then show ?thesis by simp
  next
    case 2
    from update_request_status_ok[OF 2] assms
    have "db w' = (db w)\<lparr>ride_requests :=
                          map (\<lambda>x. if q_id x = request_id then x\<lparr>q_status := status\<rparr> else x)
                            (ride_requests (db w)),
                      rides := (if status = ''accepted''
                                then map (\<lambda>x. if r_id x = ride_id q
                                          then x\<lparr>available_seats := available_seats r - seats q\<rparr>
                                          else x) (rides (db w))
                                else rides (db w))\<rparr>"
      by auto
    with 2(1-7) show ?thesis by blast
  qed
qed

lemma require_InrD: "require name v k = Inr x \<Longrightarrow> v \<noteq> Absent \<and> k (dict_get v None) = Inr x"
  by (cases v) (simp_all add: require_def dict_get_def)

lemma dict_get_Some: "dict_get v None = Some x \<longleftrightarrow> v = Value x"
  by (cases v) (simp_all add: dict_get_def)

lemma required_register_Inr:
  assumes "required_register data = Inr (fn, ln, e, ph, pw, r)"
  shows "dict_get (reg_email data) None = e" and "dict_get (reg_role data) None = r"
  using assms by (auto dest!: require_InrD simp: required_register_def)

lemma handle_db_cases:
  assumes "handle gph cph clk req s w = (resp, s', w')"
  shows "db w' = db w
    \<or> (\<exists>data u. req = Register data \<and> db w' = (db w)\<lparr>users := users (db w) @ [u]\<rparr> \<and>
          find (\<lambda>x. email x = email u) (users (db w)) = None \<and> reg_role data = Value (role u))
    \<or> (\<exists>data r. req = CreateRide data \<and> db w' = (db w)\<lparr>rides := rides (db w) @ [r]\<rparr> \<and>
          r_status r = ''active'')
    \<or> (\<exists>data q. req = CreateRideRequest data \<and>
          db w' = (db w)\<lparr>ride_requests := ride_requests (db w) @ [q]\<rparr> \<and> q_status q = ''pending'')
    \<or> (\<exists>i data q r uid status. req = UpdateRequestStatus i data \<and>
          s_user_id s = Some uid \<and> s_user_role s = Some ''driver'' \<and>
          sb_status data = Value status \<and> (status = ''accepted'' \<or> status = ''declined'') \<and>
          get_request (ride_requests (db w)) i = Some q \<and>
          get_ride (rides (db w)) (ride_id q) = Some r \<and> driver_id r = uid \<and>
          db w' = (db w)\<lparr>ride_requests :=
                            map (\<lambda>x. if q_id x = i then x\<lparr>q_status := status\<rparr> else x)
                              (ride_requests (db w)),
                        rides := (if status = ''accepted''
                                  then map (\<lambda>x. if r_id x = ride_id q
                                            then x\<lparr>available_seats := available_seats r - seats q\<rparr>
                                            else x) (rides (db w))
                                  else rides (db w))\<rparr>)"
proof (cases req)
  case (Register data)
  with assms register_cases[of gph clk data s w resp s' w'] show ?thesis
    by (auto dest!: required_register_Inr(2) simp: dict_get_Some)
next
  case (Login data)
  with assms login_cases[of cph clk data s w resp s' w'] show ?thesis by auto
next
  case Logout
  with assms logout_cases[of s w resp s' w'] show ?thesis by auto
next
  case GetCurrentUser
  with assms get_current_user_cases[of s w resp s' w'] show ?thesis by auto
next
  case (CreateRide data)
  with assms create_ride_cases[of clk data s w resp s' w'] show ?thesis by auto
next
  case (SearchRides args)
  with assms search_rides_cases[of clk args s w resp s' w'] show ?thesis by auto
next
  case GetMyRides
  with assms get_my_rides_cases[of s w resp s' w'] show ?thesis by auto
next
  case (CreateRideRequest data)
  with assms create_ride_request_cases[of clk data s w resp s' w'] show ?thesis by auto
next
  case GetMyRequests
  with assms get_my_requests_cases[of s w resp s' w'] show ?thesis by auto
next
  case (UpdateRequestStatus i data)
  show ?thesis
  proof (cases "i < 0")
    case True
    with assms UpdateRequestStatus show ?thesis by simp
  next
    case False
    with assms UpdateRequestStatus have "update_request_status i data s w = (resp, s', w')"
      by simp
    from update_request_status_db[OF this] UpdateRequestStatus show ?thesis
      by auto
  qed
next
  case DemoDataStructures
  with assms demo_cases[of s w resp s' w'] show ?thesis by auto
qed

lemma map_status_update:
  "map (r_status \<circ> (\<lambda>x. if r_id x = i then x\<lparr>available_seats := n\<rparr> else x)) rs = map r_status rs"
  by (induction rs) auto

text \<open>
  C9. Update-request-status leaves the users alone; it rewrites at most the status of the
  rows of the request it is given, to the status of the body, and, only when that status
  is \<open>accepted\<close>, the available seats of the ride the request refers to; every other field of
  every row is as before, and the status of every ride is as before. No handler changes
  the status of a stored ride: after any request the ride statuses are the ones before,
  followed by \<open>active\<close> for a ride that was created. So a ride whose seats are used up
  by an acceptance stays \<open>active\<close>.
\<close>

theorem ride_status_is_never_changed:
  "(\<forall>resp s' w'. update_request_status request_id data s w = (resp, s', w') \<longrightarrow>
       users (db w') = users (db w)
     \<and> (ride_requests (db w') = ride_requests (db w)
        \<or> (\<exists>status. sb_status data = Value status \<and>
              ride_requests (db w') =
                map (\<lambda>q. if q_id q = request_id then q\<lparr>q_status := status\<rparr> else q)
                  (ride_requests (db w))))
     \<and> (rides (db w') = rides (db w)
        \<or> (\<exists>q r. sb_status data = Value ''accepted'' \<and>
              get_request (ride_requests (db w)) request_id = Some q \<and>
              get_ride (rides (db w)) (ride_id q) = Some r \<and>
              rides (db w') =
                map (\<lambda>x. if r_id x = ride_id q
                          then x\<lparr>available_seats := available_seats r - seats q\<rparr> else x)
                  (rides (db w))))
     \<and> map r_status (rides (db w')) = map r_status (rides (db w)))
   \<and> (\<forall>resp s' w'. handle gph cph clk req s w = (resp, s', w') \<longrightarrow>
        (\<exists>new. map r_status (rides (db w')) = map r_status (rides (db w)) @ new
               \<and> (new = [] \<or> new = [''active''])))"
proof (intro conjI allI impI)
  fix resp s' w'
  assume run: "update_request_status request_id data s w = (resp, s', w')"
  note c = update_request_status_db[OF run]
  from c show "users (db w') = users (db w)" by auto
  from c show "ride_requests (db w') = ride_requests (db w)
        \<or> (\<exists>status. sb_status data = Value status \<and>
              ride_requests (db w') =
                map (\<lambda>q. if q_id q = request_id then q\<lparr>q_status := status\<rparr> else q)
                  (ride_requests (db w)))" by auto
  from c show "rides (db w') = rides (db w)
        \<or> (\<exists>q r. sb_status data = Value ''accepted'' \<and>
              get_request (ride_requests (db w)) request_id = Some q \<and>
              get_ride (rides (db w)) (ride_id q) = Some r \<and>
              rides (db w') =
                map (\<lambda>x. if r_id x = ride_id q
                          then x\<lparr>available_seats := available_seats r - seats q\<rparr> else x)
                  (rides (db w)))"
    by (elim disjE exE conjE) (simp, cases "sb_status data = Value ''accepted''", auto)
  from c show "map r_status (rides (db w')) = map r_status (rides (db w))"
    by (auto simp: map_status_update)
next
  fix resp s' w'
  assume run: "handle gph cph clk req s w = (resp, s', w')"
  from handle_db_cases[OF run]
  show "\<exists>new. map r_status (rides (db w')) = map r_status (rides (db w)) @ new
               \<and> (new = [] \<or> new = [''active''])"
    by (elim disjE exE conjE) (auto simp: map_status_update)
qed

theorem ride_status_is_never_changed_witness:
  "map r_status (rides (db (snd (snd (update_request_status 1 accept driver_session two_seat_world)))))
     = [''active'']
   \<and> map available_seats
        (rides (db (snd (snd (update_request_status 1 accept driver_session two_seat_world))))) = [0]
   \<and> users (db (snd (snd (update_request_status 1 accept driver_session two_seat_world))))
     = [example_user1, example_user2]"
proof -
  let ?run = "update_request_status 1 accept driver_session two_seat_world"
  have run: "?run = (fst ?run, fst (snd ?run), snd (snd ?run))"
    by simp
  have before: "db two_seat_world =
      \<lparr>users = [example_user1, example_user2], rides = [example_ride1\<lparr>available_seats := 2\<rparr>],
       ride_requests = [example_request1]\<rparr>"
    by (simp add: two_seat_world_def example_db)
  from ride_status_is_never_changed[of 1 accept driver_session two_seat_world
      example_hash example_check "at 5" Logout] run
  have "users (db (snd (snd ?run))) = users (db two_seat_world)"
    and "map r_status (rides (db (snd (snd ?run)))) = map r_status (rides (db two_seat_world))"
    by blast+
  moreover have "map available_seats (rides (db (snd (snd ?run)))) = [0]"
    by (simp add: update_request_status_def require_auth_def driver_session_def accept_def before
        get_request_def get_ride_def example_request1_def example_ride1_def Let_def dict_get_def
        sqlite_integer_def)
  ultimately show ?thesis
    by (simp add: before example_ride1_def)
qed

subsection \<open>The status of a request\<close>

lemma find_append_one:
  "find P (xs @ [x]) = (case find P xs of Some y \<Rightarrow> Some y | None \<Rightarrow> if P x then Some x else None)"
  by (induction xs) auto

lemma get_request_append:
  "get_request (qs @ [q]) i =
     (case get_request qs i of Some y \<Rightarrow> Some y | None \<Rightarrow> if q_id q = i then Some q else None)"
  unfolding get_request_def by (rule find_append_one)

text \<open>
  C2, as the code has it. A stored request keeps every field but its status, and its
  status changes only through update-request-status: the caller's session has the role
  \<open>driver\<close> and its user owns the ride the request refers to, and the new status is the
  one of the body, \<open>accepted\<close> or \<open>declined\<close>. A request that appears is \<open>pending\<close>. The
  status the request had before is not looked at.
\<close>

theorem request_status_changes_by_owner_only:
  "(\<forall>resp s' w' q. handle gph cph clk req s w = (resp, s', w') \<longrightarrow>
       get_request (ride_requests (db w)) i = Some q \<longrightarrow>
       (\<exists>q'. get_request (ride_requests (db w')) i = Some q' \<and> q' = q\<lparr>q_status := q_status q'\<rparr> \<and>
          (q_status q' \<noteq> q_status q \<longrightarrow>
             (\<exists>data uid r. req = UpdateRequestStatus i data \<and> sb_status data = Value (q_status q') \<and>
                (q_status q' = ''accepted'' \<or> q_status q' = ''declined'') \<and>
                s_user_role s = Some ''driver'' \<and> s_user_id s = Some uid \<and>
                get_ride (rides (db w)) (ride_id q) = Some r \<and> driver_id r = uid))))
   \<and> (\<forall>resp s' w' q'. handle gph cph clk req s w = (resp, s', w') \<longrightarrow>
       get_request (ride_requests (db w)) i = None \<longrightarrow>
       get_request (ride_requests (db w')) i = Some q' \<longrightarrow> q_status q' = ''pending'')"
proof (intro conjI allI impI)
  fix resp s' w' q
  assume run: "handle gph cph clk req s w = (resp, s', w')"
    and q: "get_request (ride_requests (db w)) i = Some q"
  from handle_db_cases[OF run] q get_request_id[OF q]
  show "\<exists>q'. get_request (ride_requests (db w')) i = Some q' \<and> q' = q\<lparr>q_status := q_status q'\<rparr> \<and>
          (q_status q' \<noteq> q_status q \<longrightarrow>
             (\<exists>data uid r. req = UpdateRequestStatus i data \<and> sb_status data = Value (q_status q') \<and>
                (q_status q' = ''accepted'' \<or> q_status q' = ''declined'') \<and>
                s_user_role s = Some ''driver'' \<and> s_user_id s = Some uid \<and>
                get_ride (rides (db w)) (ride_id q) = Some r \<and> driver_id r = uid))"
    by (elim disjE exE conjE) (auto simp: get_request_append get_request_update)
next
  fix resp s' w' q'
  assume run: "handle gph cph clk req s w = (resp, s', w')"
    and none: "get_request (ride_requests (db w)) i = None"
    and q': "get_request (ride_requests (db w')) i = Some q'"
  from handle_db_cases[OF run] none q'
  show "q_status q' = ''pending''"
    by (elim disjE exE conjE) (auto simp: get_request_append get_request_update split: if_splits)
qed

theorem request_status_changes_by_owner_only_witness:
  "handle example_hash example_check (at 5) (UpdateRequestStatus 1 decline) driver_session example_world
     = (message_response ''Request updated successfully'' 200, driver_session,
        snd (snd (update_request_status 1 decline driver_session example_world)))
   \<and> get_request (ride_requests (db example_world)) 1 = Some example_request1
   \<and> get_request (ride_requests (db (snd (snd (update_request_status 1 decline driver_session example_world))))) 1
       = Some (example_request1\<lparr>q_status := ''declined''\<rparr>)
   \<and> s_user_role driver_session = Some ''driver'' \<and> s_user_id driver_session = Some 1
   \<and> get_ride (rides (db example_world)) (ride_id example_request1) = Some example_ride1
   \<and> driver_id example_ride1 = 1"
proof -
  let ?w' = "snd (snd (update_request_status 1 decline driver_session example_world))"
  have q: "get_request (ride_requests (db example_world)) 1 = Some example_request1"
    by (simp add: example_db get_request_def example_request1_def)
  have r: "get_ride (rides (db example_world)) (ride_id example_request1) = Some example_ride1"
    by (simp add: example_db get_ride_def example_request1_def example_ride1_def)
  have s: "s_user_id driver_session = Some 1" "s_user_role driver_session = Some ''driver''"
    by (simp_all add: driver_session_def)
  have d: "sb_status decline = Value ''declined''" "driver_id example_ride1 = 1"
    by (simp_all add: decline_def example_ride1_def)
  have run: "handle example_hash example_check (at 5) (UpdateRequestStatus 1 decline) driver_session
       example_world = (message_response ''Request updated successfully'' 200, driver_session, ?w')"
    by (simp add: update_request_status_ok[OF s(1) s(2) d(1) _ q r d(2)])
  from request_status_changes_by_owner_only[of example_hash example_check "at 5"
      "UpdateRequestStatus 1 decline" driver_session example_world 1] run q
  obtain q' where q': "get_request (ride_requests (db ?w')) 1 = Some q'"
      "q' = example_request1\<lparr>q_status := q_status q'\<rparr>"
    by blast
  have "get_request (ride_requests (db ?w')) 1 = Some (example_request1\<lparr>q_status := ''declined''\<rparr>)"
    using get_request_id[OF q]
    by (simp add: update_request_status_ok[OF s(1) s(2) d(1) _ q r d(2)] get_request_update q)
  with q'(1) have "q' = example_request1\<lparr>q_status := ''declined''\<rparr>"
    by simp
  with q'(1) run q r s d show ?thesis
    by simp
qed

text \<open>
  C2, read literally, does not hold: the driver accepts the request of the scenario and
  then declines it, both calls are answered with 200, and the status of the request
  goes from \<open>accepted\<close> to \<open>declined\<close>.
\<close>

theorem accepted_request_can_be_declined:
  "map q_status (ride_requests (db (final_world
       (serve example_hash example_check accept_once no_sessions init_world)))) = [''accepted'']
   \<and> map q_status (ride_requests (db (final_world
       (serve example_hash example_check accept_then_decline no_sessions init_world)))) = [''declined'']
   \<and> map snd (fst (serve example_hash example_check accept_then_decline no_sessions init_world))
       = [201, 201, 201, 201, 200, 200]"
  by (simp add: example_defs handler_defs Let_def)

subsection \<open>Seats after acceptance\<close>

text \<open>
  C1. The rider asks twice for two of the three seats of the ride; both requests pass the
  check of create-ride-request, the driver accepts both, both acceptances are answered
  with 200, and the ride is left with \<open>-1\<close> available seats.
\<close>

theorem acceptance_drives_seats_below_zero:
  "map snd (fst (serve example_hash example_check overbooking no_sessions init_world))
       = [201, 201, 201, 201, 201, 200, 200]
   \<and> map available_seats (rides (db (final_world
       (serve example_hash example_check overbooking no_sessions init_world)))) = [- 1]
   \<and> map q_status (ride_requests (db (final_world
       (serve example_hash example_check overbooking no_sessions init_world))))
       = [''accepted'', ''accepted'']"
  by (simp add: example_defs handler_defs Let_def)

subsection \<open>Roles\<close>

lemma get_user_append:
  "get_user (us @ [u]) i =
     (case get_user us i of Some y \<Rightarrow> Some y | None \<Rightarrow> if u_id u = i then Some u else None)"
  unfolding get_user_def by (rule find_append_one)

lemma stored_users_never_change:
  assumes "handle gph cph clk req s w = (resp, s', w')"
    and "get_user (users (db w)) i = Some u"
  shows "get_user (users (db w')) i = Some u"
  using handle_db_cases[OF assms(1)] assms(2)
  by (elim disjE exE conjE) (auto simp: get_user_append)

text \<open>
  C5. Registration stores the role of the body as it is: a body with the role \<open>admin\<close>
  is answered with 201 and leaves a user row with the role \<open>admin\<close>.
\<close>

theorem register_stores_any_role:
  "snd (fst (register example_hash (at 1) example_admin empty_session init_world)) = 201
   \<and> map role (users (db (snd (snd (register example_hash (at 1) example_admin empty_session
        init_world))))) = [''admin'']
   \<and> s_user_role (fst (snd (register example_hash (at 1) example_admin empty_session init_world)))
       = Some ''admin''"
  by (simp add: example_defs handler_defs Let_def)

subsection \<open>Registration and e-mail addresses\<close>

lemma register_existing_email:
  assumes "reg_email data = Value e" and "find (\<lambda>u. email u = e) (users (db w)) \<noteq> None"
  shows "snd (fst (register gph clk data s w)) = 400
       \<and> db (snd (snd (register gph clk data s w))) = db w"
proof (cases "required_register data")
  case (Inl field)
  then show ?thesis
    by (simp add: register_def message_response_def)
next
  case (Inr fields)
  obtain fn ln e' ph pw r where fields: "fields = (fn, ln, e', ph, pw, r)"
    by (cases fields) auto
  from required_register_Inr(1)[OF Inr[unfolded fields]] assms(1) have "e' = Some e"
    by (simp add: dict_get_def)
  with Inr fields assms(2) show ?thesis
    by (auto simp: register_def message_response_def add_user_email_def filter_by_email_def)
qed

lemma handle_distinct_emails:
  assumes "handle gph cph clk req s w = (resp, s', w')"
    and "distinct (map email (users (db w)))"
  shows "distinct (map email (users (db w')))"
  using handle_db_cases[OF assms(1)] assms(2)
  by (elim disjE exE conjE) (auto simp: find_None_iff)

lemma serve_preserves:
  assumes step: "\<And>clk req s w resp s' w'. P w \<Longrightarrow> handle gph cph clk req s w = (resp, s', w') \<Longrightarrow> P w'"
    and start: "P w"
  shows "P (final_world (serve gph cph reqs ss w))"
  using start
proof (induction reqs arbitrary: ss w)
  case Nil
  then show ?case by (simp add: final_world_def)
next
  case (Cons a reqs)
  obtain client clk req where a: "a = (client, clk, req)"
    by (cases a) auto
  obtain resp s' w' where h: "handle gph cph clk req (ss client) w = (resp, s', w')"
    by (cases "handle gph cph clk req (ss client) w") auto
  from step[OF Cons.prems h] have "P w'" .
  then have "P (final_world (serve gph cph reqs (ss(client := s')) w'))"
    by (rule Cons.IH)
  moreover have "final_world (serve gph cph (a # reqs) ss w)
      = final_world (serve gph cph reqs (ss(client := s')) w')"
    using a h by (simp add: final_world_def split: prod.splits)
  ultimately show ?case
    by (simp only:)
qed

lemma distinct_emails_at_most_one:
  "distinct (map email us) \<Longrightarrow> length (filter (\<lambda>u. email u = e) us) \<le> 1"
  by (induction us) (auto simp: filter_empty_conv image_iff)

text \<open>
  C6. Registration with an e-mail address that a stored user has is answered with 400
  and leaves the database as it was. So the e-mail addresses of the stored users stay
  pairwise different under any sequence of requests, and after any sequence of requests
  to a server that starts empty at most one user row has a given e-mail address.
\<close>

theorem duplicate_email_is_rejected:
  "(reg_email data = Value e \<longrightarrow> find (\<lambda>u. email u = e) (users (db w)) \<noteq> None \<longrightarrow>
       snd (fst (register gph clk data s w)) = 400
     \<and> db (snd (snd (register gph clk data s w))) = db w)
   \<and> (distinct (map email (users (db w))) \<longrightarrow>
       distinct (map email (users (db (final_world (serve gph cph reqs ss w))))))
   \<and> length (filter (\<lambda>u. email u = e)
        (users (db (final_world (serve gph cph reqs ss init_world))))) \<le> 1"
proof (intro conjI impI)
  assume "reg_email data = Value e" and "find (\<lambda>u. email u = e) (users (db w)) \<noteq> None"
  then show "snd (fst (register gph clk data s w)) = 400"
    and "db (snd (snd (register gph clk data s w))) = db w"
    using register_existing_email by blast+
next
  assume "distinct (map email (users (db w)))"
  then show "distinct (map email (users (db (final_world (serve gph cph reqs ss w)))))"
    by (rule serve_preserves[where P = "\<lambda>w. distinct (map email (users (db w)))", rotated])
       (rule handle_distinct_emails)
next
  have "distinct (map email (users (db init_world)))"
    by (simp add: init_world_def)
  then have "distinct (map email (users (db (final_world (serve gph cph reqs ss init_world)))))"
    by (rule serve_preserves[where P = "\<lambda>w. distinct (map email (users (db w)))", rotated])
       (rule handle_distinct_emails)
  then show "length (filter (\<lambda>u. email u = e)
        (users (db (final_world (serve gph cph reqs ss init_world))))) \<le> 1"
    by (rule distinct_emails_at_most_one)
qed

theorem duplicate_email_is_rejected_witness:
  "reg_email example_driver = Value ''asha@example.org''
   \<and> find (\<lambda>u. email u = ''asha@example.org'') (users (db example_world)) = Some example_user1
   \<and> snd (fst (register example_hash (at 5) example_driver empty_session example_world)) = 400
   \<and> db (snd (snd (register example_hash (at 5) example_driver empty_session example_world)))
       = db example_world
   \<and> distinct (map email (users (db example_world)))
   \<and> distinct (map email (users (db (final_world
        (serve example_hash example_check [(3, at 5, Register example_driver)] no_sessions
           example_world)))))
   \<and> length (filter (\<lambda>u. email u = ''asha@example.org'') (users (db (final_world
        (serve example_hash example_check
           [(1, at 1, Register example_driver), (3, at 2, Register example_driver)]
           no_sessions init_world))))) \<le> 1"
proof -
  have e: "reg_email example_driver = Value ''asha@example.org''"
    by (simp add: example_driver_def)
  have f: "find (\<lambda>u. email u = ''asha@example.org'') (users (db example_world)) = Some example_user1"
    by (simp add: example_db example_user1_def)
  have d: "distinct (map email (users (db example_world)))"
    by (simp add: example_db example_user1_def example_user2_def)
  from duplicate_email_is_rejected[of example_driver "''asha@example.org''" example_world
      example_hash "at 5" empty_session example_check "[(3, at 5, Register example_driver)]" no_sessions]
    e f d
  have a: "snd (fst (register example_hash (at 5) example_driver empty_session example_world)) = 400"
    "db (snd (snd (register example_hash (at 5) example_driver empty_session example_world)))
       = db example_world"
    "distinct (map email (users (db (final_world
        (serve example_hash example_check [(3, at 5, Register example_driver)] no_sessions
           example_world)))))"
    by simp_all
  from duplicate_email_is_rejected[of example_driver "''asha@example.org''" example_world
      example_hash "at 5" empty_session example_check
      "[(1, at 1, Register example_driver), (3, at 2, Register example_driver)]" no_sessions]
  have b: "length (filter (\<lambda>u. email u = ''asha@example.org'') (users (db (final_world
        (serve example_hash example_check
           [(1, at 1, Register example_driver), (3, at 2, Register example_driver)]
           no_sessions init_world))))) \<le> 1"
    by simp
  from e f d a b show ?thesis
    by simp
qed

subsection \<open>Failing logins\<close>

lemma failed_login_with_a_string_password:
  "(login_email data = Value e \<longrightarrow> login_password data = Value pw \<longrightarrow>
       find (\<lambda>u. email u = e) (users (db w)) = None \<longrightarrow>
       login cph clk data s w = (message_response ''Invalid credentials'' 401, s, w))
   \<and> (login_email data = Value e \<longrightarrow> login_password data = Value pw \<longrightarrow>
       find (\<lambda>u. email u = e) (users (db w)) = Some u \<longrightarrow> \<not> cph (password_hash u) pw \<longrightarrow>
       login cph clk data s w = (message_response ''Invalid credentials'' 401, s, w))
   \<and> (login_password data \<noteq> Null \<longrightarrow> snd (fst (login cph clk data s w)) \<noteq> 200 \<longrightarrow>
       snd (fst (login cph2 clk2 data s2 w2)) \<noteq> 200 \<longrightarrow>
       fst (login cph clk data s w) = fst (login cph2 clk2 data s2 w2))"
proof (intro conjI impI)
  assume "login_email data = Value e" "login_password data = Value pw"
    "find (\<lambda>u. email u = e) (users (db w)) = None"
  then show "login cph clk data s w = (message_response ''Invalid credentials'' 401, s, w)"
    by (simp add: login_def dict_get_def filter_by_email_def)
next
  assume "login_email data = Value e" "login_password data = Value pw"
    "find (\<lambda>u. email u = e) (users (db w)) = Some u" "\<not> cph (password_hash u) pw"
  then show "login cph clk data s w = (message_response ''Invalid credentials'' 401, s, w)"
    by (simp add: login_def dict_get_def filter_by_email_def)
next
  assume "login_password data \<noteq> Null" and "snd (fst (login cph clk data s w)) \<noteq> 200"
    and "snd (fst (login cph2 clk2 data s2 w2)) \<noteq> 200"
  then show "fst (login cph clk data s w) = fst (login cph2 clk2 data s2 w2)"
    by (cases "login_password data")
       (auto simp: login_def Let_def message_response_def dict_get_def
         split: option.splits if_splits)
qed

text \<open>
  C7. With a password that is a string the two failures get the same answer, as the
  lemma above says. With the password \<^verbatim>\<open>null\<close> they do not: for the e-mail address of
  a stored user the password check is called and raises, and the answer is 500 with
  \<open>Login failed\<close>; for an e-mail address that no stored user has the check is not
  called, and the answer is 401 with \<open>Invalid credentials\<close>. The two runs differ only in
  whether the e-mail address is registered.
\<close>

theorem null_password_reveals_registration:
  "find (\<lambda>u. email u = ''asha@example.org'') (users (db example_world)) = Some example_user1
   \<and> find (\<lambda>u. email u = ''nobody@example.org'') (users (db example_world)) = None
   \<and> login example_check (at 5) (null_password ''asha@example.org'') empty_session example_world
     = (failure_response ''Login failed'' (JStr ''AttributeError''), empty_session, example_world)
   \<and> login example_check (at 5) (null_password ''nobody@example.org'') empty_session example_world
     = (message_response ''Invalid credentials'' 401, empty_session, example_world)
   \<and> snd (failure_response ''Login failed'' (JStr ''AttributeError'')) = 500"
  by (simp add: login_def null_password_def dict_get_def filter_by_email_def example_db
      example_user1_def example_user2_def failure_response_def)

subsection \<open>Representations and password hashes\<close>

lemma rehash_user_fields [simp]:
  "u_id (rehash_user f u) = u_id u" "email (rehash_user f u) = email u"
  "role (rehash_user f u) = role u" "password_hash (rehash_user f u) = f (password_hash u)"
  by (simp_all add: rehash_user_def)

lemma user_to_dict_rehash [simp]: "user_to_dict (rehash_user f u) = user_to_dict u"
  by (simp add: user_to_dict_def rehash_user_def)

lemma rehash_fields [simp]:
  "users (db (rehash f w)) = map (rehash_user f) (users (db w))"
  "rides (db (rehash f w)) = rides (db w)"
  "ride_requests (db (rehash f w)) = ride_requests (db w)"
  "ride_data (rehash f w) = ride_data w"
  by (simp_all add: rehash_def)

lemma find_map_same:
  assumes "\<And>x. P (g x) = P x"
  shows "find P (map g xs) = map_option g (find P xs)"
  using assms by (induction xs) auto

lemma get_user_rehash [simp]:
  "get_user (map (rehash_user f) us) i = map_option (rehash_user f) (get_user us i)"
  unfolding get_user_def by (rule find_map_same) simp

lemma find_email_rehash [simp]:
  "find (\<lambda>u. email u = e) (map (rehash_user f) us)
     = map_option (rehash_user f) (find (\<lambda>u. email u = e) us)"
  by (rule find_map_same) simp

lemma filter_by_email_rehash [simp]:
  "filter_by_email (map (rehash_user f) us) e = map_option (rehash_user f) (filter_by_email us e)"
  by (cases e) (simp_all add: filter_by_email_def)

lemma map_u_id_rehash [simp]: "map (u_id \<circ> rehash_user f) us = map u_id us"
  by simp

lemma ride_to_dict_rehash [simp]:
  "ride_to_dict (db (rehash f w)) b r = ride_to_dict (db w) b r"
  by (cases "get_user (users (db w)) (driver_id r)") (simp_all add: ride_to_dict_def)

lemma request_to_dict_rehash [simp]:
  "request_to_dict (db (rehash f w)) b c q = request_to_dict (db w) b c q"
  by (auto simp: request_to_dict_def split: option.splits)

lemma driver_request_dict_rehash [simp]:
  "driver_request_dict (db (rehash f w)) q = driver_request_dict (db w) q"
  by (simp add: driver_request_dict_def Let_def split: option.splits)

lemma register_rehash:
  "snd (fst (register gph' clk data s (rehash f w))) = snd (fst (register gph clk data s w))
   \<and> (snd (fst (register gph clk data s w)) \<noteq> 500 \<longrightarrow>
        fst (register gph' clk data s (rehash f w)) = fst (register gph clk data s w))"
proof (cases "required_register data")
  case (Inl field)
  then show ?thesis by (simp add: register_def)
next
  case (Inr fields)
  obtain fn ln e ph pw r where "fields = (fn, ln, e, ph, pw, r)"
    by (cases fields) auto
  with Inr have fields: "required_register data = Inr (fn, ln, e, ph, pw, r)"
    by simp
  show ?thesis
  proof (cases "e \<in> unique_emails (ride_data w)")
    case True
    with fields show ?thesis
      by (simp add: register_def add_user_email_def)
  next
    case new: False
    show ?thesis
    proof (cases "filter_by_email (users (db w)) e")
      case (Some existing)
      with fields new show ?thesis
        by (simp add: register_def add_user_email_def)
    next
      case None
      show ?thesis
      proof (cases pw)
        case no_password: None
        with fields new None show ?thesis
          by (simp add: register_def add_user_email_def)
      next
        case (Some password)
        with fields new None show ?thesis
          by (cases fn; cases ln; cases e; cases ph; cases r)
             (simp_all add: register_def add_user_email_def Let_def failure_response_def
               user_to_dict_def)
      qed
    qed
  qed
qed

lemma login_rehash:
  assumes "\<And>h pw. cph' (f h) pw = cph h pw"
  shows "fst (login cph' clk data s (rehash f w)) = fst (login cph clk data s w)"
  using assms by (auto simp: login_def Let_def split: option.splits)

lemma handle_rehash:
  assumes "\<And>h pw. cph' (f h) pw = cph h pw"
  shows "snd (fst (handle gph' cph' clk req s (rehash f w))) = snd (fst (handle gph cph clk req s w))
   \<and> (snd (fst (handle gph cph clk req s w)) \<noteq> 500 \<longrightarrow>
        fst (handle gph' cph' clk req s (rehash f w)) = fst (handle gph cph clk req s w))"
proof (cases req)
  case (Register data)
  then show ?thesis using register_rehash[of gph' clk data s f w gph] by simp
next
  case (Login data)
  then show ?thesis by (simp add: login_rehash[of cph' f cph, OF assms])
next
  case Logout
  then show ?thesis by (simp add: logout_def Let_def)
next
  case GetCurrentUser
  then show ?thesis
    by (auto simp: get_current_user_def require_auth_def split: option.splits)
next
  case (CreateRide data)
  have "fst (create_ride clk data s (rehash f w)) = fst (create_ride clk data s w)"
    by (auto simp: create_ride_def require_auth_def Let_def ride_to_dict_def
        split: sum.splits option.splits)
  with CreateRide show ?thesis by simp
next
  case (SearchRides args)
  then show ?thesis by (simp add: search_rides_def Let_def)
next
  case GetMyRides
  then show ?thesis
    by (auto simp: get_my_rides_def require_auth_def split: option.splits)
next
  case (CreateRideRequest data)
  have "fst (create_ride_request clk data s (rehash f w)) = fst (create_ride_request clk data s w)"
    by (auto simp: create_ride_request_def require_auth_def Let_def request_to_dict_def
        split: sum.splits option.splits)
  with CreateRideRequest show ?thesis by simp
next
  case GetMyRequests
  then show ?thesis
    by (auto simp: get_my_requests_def require_auth_def Let_def split: option.splits)
next
  case (UpdateRequestStatus i data)
  have "fst (update_request_status i data s (rehash f w)) = fst (update_request_status i data s w)"
    by (auto simp: update_request_status_def require_auth_def Let_def split: option.splits)
  with UpdateRequestStatus show ?thesis by simp
next
  case DemoDataStructures
  then show ?thesis by (simp add: demo_data_structures_def Let_def)
qed

lemma user_responses:
  assumes "handle gph cph clk req s w = (resp, s', w')"
    and "(\<exists>data. req = Register data) \<or> (\<exists>data. req = Login data) \<or> req = GetCurrentUser"
    and "snd resp = 200 \<or> snd resp = 201"
  shows "\<exists>v. fst resp = user_to_dict v"
proof -
  consider data where "req = Register data" | data where "req = Login data" | "req = GetCurrentUser"
    using assms(2) by blast
  then show ?thesis
  proof cases
    case 1
    with assms register_cases[of gph clk data s w resp s' w'] show ?thesis by auto
  next
    case 2
    with assms login_cases[of cph clk data s w resp s' w'] show ?thesis
      by (auto simp: message_response_def failure_response_def)
  next
    case 3
    with assms show ?thesis
      by (auto simp: get_current_user_def require_auth_def message_response_def
          failure_response_def split: option.splits if_splits)
  qed
qed

text \<open>
  An answer with the status 500 is the report of an exception, not a representation.
  When registration fails on a \<^verbatim>\<open>null\<close> field, the report carries the parameters of the
  refused \<^verbatim>\<open>INSERT\<close>, the fresh password hash among them.
\<close>

lemma failed_registration_reports_the_hash:
  "fst (register example_hash (at 9) null_role empty_session init_world)
     = failure_response ''Registration failed''
         (statement_error ''IntegrityError''
            [JStr ''Mira'', JStr ''Das'', JStr ''mira@example.org'', JStr ''300'',
             JStr ''salt$pw3'', JNull, JInt 5, JInt 0, JIso 9])"
  by (simp add: register_def required_register_def require_def null_role_def add_user_email_def
      init_world_def init_ride_data_def filter_by_email_def example_hash_def at_def
      failure_response_def statement_error_def str_or_none_def)

text \<open>
  C8. The representation of a user has the nine keys of \<^verbatim>\<open>to_dict\<close>, none of them for
  the password hash, and does not depend on the password hash of the user; so the
  representations of rides and requests, with the driver or the rider embedded, do not
  depend on the stored hashes. What register, login and get-current-user return with
  200 or 201 is such a representation. Replacing every stored hash, and the hash
  function of registration, changes the status of no response and, the reports of
  exceptions (status 500) apart, no response of any handler, as long as the password
  check decides as before.
\<close>

theorem password_hash_is_never_returned:
  "(\<exists>fs. user_to_dict u = JObj fs \<and>
         map fst fs = [''id'', ''firstName'', ''lastName'', ''email'', ''phone'', ''role'',
                       ''rating'', ''totalRides'', ''createdAt''])
   \<and> user_to_dict (u\<lparr>password_hash := h\<rparr>) = user_to_dict u
   \<and> ride_to_dict (db (rehash f w)) include_driver r = ride_to_dict (db w) include_driver r
   \<and> request_to_dict (db (rehash f w)) include_rider include_ride q
       = request_to_dict (db w) include_rider include_ride q
   \<and> (\<forall>resp s' w'. handle gph cph clk req s w = (resp, s', w') \<longrightarrow>
        (\<exists>data. req = Register data) \<or> (\<exists>data. req = Login data) \<or> req = GetCurrentUser \<longrightarrow>
        snd resp = 200 \<or> snd resp = 201 \<longrightarrow> (\<exists>v. fst resp = user_to_dict v))
   \<and> ((\<forall>h pw. cph' (f h) pw = cph h pw) \<longrightarrow>
        snd (fst (handle gph' cph' clk req s (rehash f w))) = snd (fst (handle gph cph clk req s w))
      \<and> (snd (fst (handle gph cph clk req s w)) \<noteq> 500 \<longrightarrow>
           fst (handle gph' cph' clk req s (rehash f w)) = fst (handle gph cph clk req s w)))"
proof (intro conjI allI impI)
  show "\<exists>fs. user_to_dict u = JObj fs \<and>
         map fst fs = [''id'', ''firstName'', ''lastName'', ''email'', ''phone'', ''role'',
                       ''rating'', ''totalRides'', ''createdAt'']"
    by (simp add: user_to_dict_def)
  show "user_to_dict (u\<lparr>password_hash := h\<rparr>) = user_to_dict u"
    by (simp add: user_to_dict_def)
  show "ride_to_dict (db (rehash f w)) include_driver r = ride_to_dict (db w) include_driver r"
    by simp
  show "request_to_dict (db (rehash f w)) include_rider include_ride q
       = request_to_dict (db w) include_rider include_ride q"
    by simp
next
  fix resp s' w'
  assume "handle gph cph clk req s w = (resp, s', w')"
    and "(\<exists>data. req = Register data) \<or> (\<exists>data. req = Login data) \<or> req = GetCurrentUser"
    and "snd resp = 200 \<or> snd resp = 201"
  then show "\<exists>v. fst resp = user_to_dict v"
    by (rule user_responses)
next
  assume c: "\<forall>h pw. cph' (f h) pw = cph h pw"
  then show "snd (fst (handle gph' cph' clk req s (rehash f w)))
      = snd (fst (handle gph cph clk req s w))"
    using handle_rehash[of cph' f cph gph' clk req s w gph] by simp
  assume "snd (fst (handle gph cph clk req s w)) \<noteq> 500"
  with c show "fst (handle gph' cph' clk req s (rehash f w)) = fst (handle gph cph clk req s w)"
    using handle_rehash[of cph' f cph gph' clk req s w gph] by simp
qed

theorem password_hash_is_never_returned_witness:
  "(\<forall>h pw. reversed_check (reversed_hash h) pw = example_check h pw)
   \<and> map password_hash (users (db (rehash reversed_hash example_world))) = [''1wp$tlas'', ''2wp$tlas'']
   \<and> fst (login reversed_check (at 5)
            \<lparr>login_email = Value ''asha@example.org'', login_password = Value ''pw1''\<rparr>
            empty_session (rehash reversed_hash example_world))
       = (user_to_dict example_user1, 200)
   \<and> fst (get_my_requests driver_session (rehash reversed_hash example_world))
       = fst (get_my_requests driver_session example_world)
   \<and> (\<exists>v. fst (fst (login example_check (at 5)
            \<lparr>login_email = Value ''asha@example.org'', login_password = Value ''pw1''\<rparr>
            empty_session example_world)) = user_to_dict v)"
proof -
  let ?body = "\<lparr>login_email = Value ''asha@example.org'', login_password = Value ''pw1''\<rparr>"
  let ?run = "login example_check (at 5) ?body empty_session example_world"
  have c: "\<forall>h pw. reversed_check (reversed_hash h) pw = example_check h pw"
    by (simp add: reversed_check_def reversed_hash_def)
  have h: "map password_hash (users (db (rehash reversed_hash example_world)))
      = [''1wp$tlas'', ''2wp$tlas'']"
    by (simp add: example_db example_user1_def example_user2_def reversed_hash_def)
  have l: "fst ?run = (user_to_dict example_user1, 200)"
    by (simp add: login_def example_db example_user1_def example_check_def Let_def dict_get_def
        filter_by_email_def)
  have run: "handle example_hash example_check (at 5) (Login ?body) empty_session example_world
      = (fst ?run, fst (snd ?run), snd (snd ?run))"
    by simp
  note login_inst = password_hash_is_never_returned[where f = reversed_hash and w = example_world
      and cph' = reversed_check and cph = example_check and gph = example_hash
      and gph' = example_hash and clk = "at 5" and req = "Login ?body" and s = empty_session]
  from login_inst c l
  have a: "fst (login reversed_check (at 5) ?body empty_session (rehash reversed_hash example_world))
       = (user_to_dict example_user1, 200)"
    by simp
  from login_inst run l
  have r: "\<exists>v. fst (fst ?run) = user_to_dict v"
    by (metis snd_conv)
  have ok: "snd (fst (get_my_requests driver_session example_world)) \<noteq> 500"
    by (simp add: get_my_requests_def require_auth_def driver_session_def Let_def)
  from password_hash_is_never_returned[where f = reversed_hash and w = example_world
      and cph' = reversed_check and cph = example_check and gph = example_hash
      and gph' = example_hash and clk = "at 5" and req = GetMyRequests and s = driver_session] c ok
  have b: "fst (get_my_requests driver_session (rehash reversed_hash example_world))
       = fst (get_my_requests driver_session example_world)"
    by simp
  from c h a b r show ?thesis
    by simp
qed

subsection \<open>Searching rides\<close>







end
